theory Spec2Isabelle
  imports Main "HOL-Library.Sublist" "HOL-Library.AList" "HOL-Library.Multiset"
begin

section \<open>Python strings\<close>

text \<open>
  A Python \<open>str\<close> is modelled as a HOL \<open>string\<close>, each \<open>char\<close> standing for
  one code point below 256 (Latin-1). File names with code points beyond that range are
  outside the model.
\<close>

text \<open>
  \<open>str.lower()\<close> on code points below 256: \<open>A\<close>..\<open>Z\<close> and the capital letters
  \<open>0xC0\<close>..\<open>0xDE\<close> (without the multiplication sign \<open>0xD7\<close>) move up by 32, every other
  code point stays.
\<close>

definition lower_char :: "char \<Rightarrow> char" where
  "lower_char c =
     (let n = (of_char c :: nat)
      in if (65 \<le> n \<and> n \<le> 90) \<or> (192 \<le> n \<and> n \<le> 222 \<and> n \<noteq> 215)
         then char_of (n + 32) else c)"

definition py_lower :: "string \<Rightarrow> string" where
  "py_lower s = map lower_char s"

text \<open>\<open>str.strip()\<close>: the white space of \<open>str.isspace\<close> below 256.\<close>

definition is_space :: "char \<Rightarrow> bool" where
  "is_space c =
     (let n = (of_char c :: nat)
      in (9 \<le> n \<and> n \<le> 13) \<or> (28 \<le> n \<and> n \<le> 32) \<or> n = 133 \<or> n = 160)"

definition py_strip :: "string \<Rightarrow> string" where
  "py_strip s = rev (dropWhile is_space (rev (dropWhile is_space s)))"

text \<open>\<open>s.split(sep)[0]\<close> for a one-character separator: the text before its first occurrence.\<close>

definition split_first :: "char \<Rightarrow> string \<Rightarrow> string" where
  "split_first sep s = takeWhile (\<lambda>c. c \<noteq> sep) s"

text \<open>The operator \<open>sub in s\<close> on strings: \<open>sub\<close> occurs in \<open>s\<close> as a contiguous run.\<close>

fun py_in :: "string \<Rightarrow> string \<Rightarrow> bool" where
  "py_in sub [] = (sub = [])"
| "py_in sub (c # cs) = (if prefix sub (c # cs) then True else py_in sub cs)"

text \<open>\<open>str(n)\<close> for a non-negative integer.\<close>

definition digit_char :: "nat \<Rightarrow> char" where
  "digit_char d = ''0123456789'' ! d"

fun str_nat :: "nat \<Rightarrow> string" where
  "str_nat n = (if n < 10 then [digit_char n] else str_nat (n div 10) @ [digit_char (n mod 10)])"

declare str_nat.simps [simp del]

text \<open>\<open>os.path.basename\<close> and \<open>os.path.join\<close> of two components, with POSIX paths.\<close>

definition basename :: "string \<Rightarrow> string" where
  "basename p = rev (takeWhile (\<lambda>c. c \<noteq> CHR ''/'') (rev p))"

definition path_join :: "string \<Rightarrow> string \<Rightarrow> string" where
  "path_join a b =
     (if prefix ''/'' b then b
      else if a = [] then b
      else if suffix ''/'' a then a @ b
      else a @ ''/'' @ b)"

text \<open>
  \<open>os.path.dirname\<close>: the head of the path up to its last slash, without trailing
  slashes unless it consists of slashes only.
\<close>

definition dirname :: "string \<Rightarrow> string" where
  "dirname p =
     (let head = rev (dropWhile (\<lambda>c. c \<noteq> CHR ''/'') (rev p))
      in if head \<noteq> [] \<and> \<not> list_all (\<lambda>c. c = CHR ''/'') head
         then rev (dropWhile (\<lambda>c. c = CHR ''/'') (rev head))
         else head)"

text \<open>
  The text the XML library accepts in an element: no control character below \<open>0x20\<close>.
  Tab, line feed and carriage return never reach it, since the docx library turns them into
  tab and break elements.
\<close>

definition xml_compatible :: "string \<Rightarrow> bool" where
  "xml_compatible s =
     list_all (\<lambda>c. let n = (of_char c :: nat) in 32 \<le> n \<or> n = 9 \<or> n = 10 \<or> n = 13) s"

section \<open>The classifier\<close>

text \<open>
  An issue is a dictionary with four string values; its key \<open>section\<close> is the field
  \<open>section_name\<close> here. The analysis is the dictionary with the keys \<open>doc_type\<close> and
  \<open>issues\<close>.
\<close>

record Issue =
  section_name :: string
  issue :: string
  severity :: string
  suggestion :: string

record DocumentAnalysis =
  doc_type :: string
  issues :: "Issue list"

definition simulate_llm_analysis :: "string \<Rightarrow> DocumentAnalysis" where
  "simulate_llm_analysis doc_name =
     (let analysis = \<lparr>doc_type = ''Unknown'', issues = []\<rparr>;
          lower_doc_name = py_lower doc_name
      in if py_in ''articles'' lower_doc_name \<or> py_in ''aoa'' lower_doc_name then
           analysis\<lparr>doc_type := ''Articles of Association'',
             issues := issues analysis @
               [\<lparr>section_name = ''Jurisdiction Clause (Simulated)'',
                 issue = ''Jurisdiction clause does not explicitly specify '' @ [CHR 0x27] @
                         ''ADGM Courts'' @ [CHR 0x27] @ ''.'',
                 severity = ''High'',
                 suggestion = ''Update the jurisdiction clause to '' @ [CHR 0x27] @
                         ''ADGM Courts'' @ [CHR 0x27] @
                         '' to comply with ADGM regulations.''\<rparr>]\<rparr>
         else if py_in ''board'' lower_doc_name \<and> py_in ''resolution'' lower_doc_name then
           analysis\<lparr>doc_type := ''Board Resolution'',
             issues := issues analysis @
               [\<lparr>section_name = ''Signatory Section (Simulated)'',
                 issue = ''Missing date on the signatory page.'',
                 severity = ''Medium'',
                 suggestion = ''Ensure all signatory fields, including the date, are properly filled out.''\<rparr>]\<rparr>
         else if py_in ''memo'' lower_doc_name \<or> py_in ''moa'' lower_doc_name then
           analysis\<lparr>doc_type := ''Memorandum of Association''\<rparr>
         else if py_in ''ubo'' lower_doc_name then
           analysis\<lparr>doc_type := ''UBO Declaration Form''\<rparr>
         else if py_in ''register'' lower_doc_name then
           analysis\<lparr>doc_type := ''Register of Members and Directors''\<rparr>
         else
           analysis\<lparr>doc_type := ''General Document'',
             issues := issues analysis @
               [\<lparr>section_name = ''General Compliance (Simulated)'',
                 issue = ''Document format does not appear to match standard ADGM templates.'',
                 severity = ''Low'',
                 suggestion = ''Cross-reference with the official ADGM templates to ensure full compliance and formatting.''\<rparr>]\<rparr>)"

section \<open>Exceptions\<close>

text \<open>
  The exceptions that leave \<open>analyze_documents\<close>: the \<open>gr.Error\<close> it raises itself,
  the \<open>KeyError\<close> of a style lookup (with the style name), the \<open>ValueError\<close> of a text
  that is not XML compatible or of a heading level out of range, and \<open>OSError\<close> for every
  error of the operating system (among them \<open>NotADirectoryError\<close>, \<open>IsADirectoryError\<close>
  and \<open>PermissionError\<close>).
\<close>

datatype error = GrError string | KeyError string | ValueError | OSError

text \<open>Sequencing of two steps, the second of which runs only when the first does not raise.\<close>

definition and_then :: "error + 'a \<Rightarrow> ('a \<Rightarrow> error + 'b) \<Rightarrow> error + 'b" where
  "and_then r k = (case r of Inl e \<Rightarrow> Inl e | Inr x \<Rightarrow> k x)"

section \<open>Documents\<close>

text \<open>
  A word-processor document, as the docx library presents it, is the sequence of its body
  blocks together with the names that its style table resolves to a paragraph style. A
  paragraph carries its text and an optional style name.
\<close>

datatype block = Para string "string option" | SectionBreak

record docx =
  blocks :: "block list"
  styles :: "string set"

text \<open>
  \<open>docx.Document()\<close>: the default template of the library, with an empty body and its
  documented paragraph styles.
\<close>

definition default_styles :: "string set" where
  "default_styles =
     {''Normal'', ''Body Text'', ''Body Text 2'', ''Body Text 3'', ''Caption'',
      ''Heading 1'', ''Heading 2'', ''Heading 3'', ''Heading 4'', ''Heading 5'',
      ''Heading 6'', ''Heading 7'', ''Heading 8'', ''Heading 9'', ''Intense Quote'',
      ''List'', ''List 2'', ''List 3'', ''List Bullet'', ''List Bullet 2'', ''List Bullet 3'',
      ''List Continue'', ''List Continue 2'', ''List Continue 3'', ''List Number'',
      ''List Number 2'', ''List Number 3'', ''List Paragraph'', ''Macro Text'',
      ''No Spacing'', ''Quote'', ''Subtitle'', ''TOC Heading'', ''Title''}"

definition new_document :: docx where
  "new_document = \<lparr>blocks = [], styles = default_styles\<rparr>"

text \<open>
  \<open>doc.add_paragraph(text, style)\<close>: the text is written first and must be XML
  compatible, then the style is looked up by name.
\<close>

definition add_paragraph :: "docx \<Rightarrow> string \<Rightarrow> string option \<Rightarrow> error + docx" where
  "add_paragraph d text style =
     (if \<not> xml_compatible text then Inl ValueError
      else case style of
             None \<Rightarrow> Inr (d\<lparr>blocks := blocks d @ [Para text None]\<rparr>)
           | Some s \<Rightarrow>
               if s \<in> styles d then Inr (d\<lparr>blocks := blocks d @ [Para text (Some s)]\<rparr>)
               else Inl (KeyError s))"

text \<open>\<open>doc.add_heading(text, level)\<close>: a paragraph of style \<open>Title\<close> or \<open>Heading n\<close>.\<close>

definition add_heading :: "docx \<Rightarrow> string \<Rightarrow> nat \<Rightarrow> error + docx" where
  "add_heading d text level =
     (if 9 < level then Inl ValueError
      else add_paragraph d text
             (Some (if level = 0 then ''Title'' else ''Heading '' @ str_nat level)))"

text \<open>\<open>doc.add_section()\<close>: a section break at the end of the body.\<close>

definition add_section :: "docx \<Rightarrow> docx" where
  "add_section d = d\<lparr>blocks := blocks d @ [SectionBreak]\<rparr>"

section \<open>The file system\<close>

text \<open>
  What a file holds: a document that \<open>docx.Document(path)\<close> opens, or anything else.
\<close>

datatype fcontent = Docx docx | Other

text \<open>
  The operating system decides which file a path denotes: \<open>resolve\<close> maps a path, relative
  or absolute, to the location it names, and two paths with one location are one file. The
  directories and the files are sets of locations, and \<open>unwritable\<close> holds the locations
  that the system refuses to create or to write, for lack of permission or of space.
\<close>

record filesystem =
  resolve :: "string \<Rightarrow> string"
  directories :: "string set"
  contents :: "string \<rightharpoonup> fcontent"
  unwritable :: "string set"

text \<open>\<open>docx.Document(path)\<close>: \<open>None\<close> stands for any exception it raises.\<close>

definition open_document :: "filesystem \<Rightarrow> string \<Rightarrow> docx option" where
  "open_document w p =
     (case contents w (resolve w p) of Some (Docx d) \<Rightarrow> Some d | _ \<Rightarrow> None)"

definition path_exists :: "filesystem \<Rightarrow> string \<Rightarrow> bool" where
  "path_exists w p = (resolve w p \<in> directories w \<or> resolve w p \<in> dom (contents w))"

definition makedirs :: "filesystem \<Rightarrow> string \<Rightarrow> error + filesystem" where
  "makedirs w p =
     (if resolve w p \<in> unwritable w then Inl OSError
      else Inr (w\<lparr>directories := insert (resolve w p) (directories w)\<rparr>))"

text \<open>
  \<open>doc.save(path)\<close>: the parent of the path must be a directory, the path must not name
  a directory, and the system must allow the write; then the file holds the document.
\<close>

definition save_document :: "filesystem \<Rightarrow> string \<Rightarrow> docx \<Rightarrow> error + filesystem" where
  "save_document w p d =
     (if resolve w (dirname p) \<notin> directories w then Inl OSError
      else if resolve w p \<in> directories w then Inl OSError
      else if resolve w p \<in> unwritable w then Inl OSError
      else Inr (w\<lparr>contents := (contents w)(resolve w p \<mapsto> Docx d)\<rparr>))"

section \<open>The batch operation\<close>

text \<open>An uploaded file handle; only its \<open>name\<close> attribute (a path) is read.\<close>

record upload =
  name :: string

record TaggedIssue = Issue +
  document :: string

record BatchReport =
  process :: string
  documents_uploaded :: nat
  required_documents :: nat
  missing_document :: string
  issues_found :: "TaggedIssue list"

text \<open>The state of the loop over the files: the local variables and the file system.\<close>

record loop_state =
  checklist :: "(string \<times> bool) list"
  all_issues :: "TaggedIssue list"
  reviewed_file_paths :: "string list"
  fs :: filesystem

text \<open>The dictionary \<open>incorporation_checklist\<close>, in insertion order.\<close>

definition incorporation_checklist :: "(string \<times> bool) list" where
  "incorporation_checklist =
     [(''Articles of Association (AoA)'', False),
      (''Memorandum of Association (MoA/MoU)'', False),
      (''Board Resolution Templates'', False),
      (''Shareholder Resolution Templates'', False),
      (''Incorporation Application Form'', False),
      (''UBO Declaration Form'', False),
      (''Register of Members and Directors'', False)]"

definition output_dir :: string where
  "output_dir = ''reviewed_docs''"

definition simplified_key :: "string \<Rightarrow> string" where
  "simplified_key key = py_lower (py_strip (split_first CHR ''('' key))"

text \<open>
  The inner loop \<open>for key in incorporation_checklist\<close>: the keys are visited in order and
  a matching key is assigned \<open>True\<close>.
\<close>

definition update_checklist :: "string \<Rightarrow> (string \<times> bool) list \<Rightarrow> (string \<times> bool) list" where
  "update_checklist doc_name cl =
     fold (\<lambda>key c. if py_in (simplified_key key) (py_lower doc_name)
                     then AList.update key True c else c)
          (map fst cl) cl"

text \<open>\<open>{"document": doc_name, **issue}\<close>\<close>

definition tag_issue :: "string \<Rightarrow> Issue \<Rightarrow> TaggedIssue" where
  "tag_issue doc_name i =
     \<lparr>section_name = section_name i, issue = issue i, severity = severity i,
      suggestion = suggestion i, document = doc_name\<rparr>"

text \<open>
  The \<open>try\<close> block: the document at the path, or, when opening raises, a new document
  with the two paragraphs of the \<open>except\<close> block. The first of them carries the base name,
  and an exception raised there is not caught.
\<close>

definition load_document :: "filesystem \<Rightarrow> string \<Rightarrow> string \<Rightarrow> error + docx" where
  "load_document w file_name doc_name =
     (case open_document w file_name of
        Some d \<Rightarrow> Inr d
      | None \<Rightarrow>
          and_then (add_paragraph new_document
                      (''Original content of '' @ doc_name @ '' would be here.'') None)
            (\<lambda>d. add_paragraph d
                    ''(Could not fully parse original, but analysis is proceeding based on filename)''
                    None))"

text \<open>The three paragraphs that the loop over the issues adds for one issue.\<close>

definition add_issue_paragraphs :: "docx \<Rightarrow> Issue \<Rightarrow> error + docx" where
  "add_issue_paragraphs d i =
     and_then (add_paragraph d
                 (''COMMENT: In section '' @ [CHR 0x27] @ section_name i @ [CHR 0x27] @
                  '', an issue was found: '' @ [CHR 0x27] @ issue i @ [CHR 0x27] @
                  '' (Severity: '' @ severity i @ '').'')
                 (Some ''Intense Quote''))
       (\<lambda>d1. and_then (add_paragraph d1 (''SUGGESTION: '' @ suggestion i) None)
          (\<lambda>d2. add_paragraph d2 [] None))"

fun add_issues :: "docx \<Rightarrow> Issue list \<Rightarrow> error + docx" where
  "add_issues d [] = Inr d"
| "add_issues d (i # rest) = and_then (add_issue_paragraphs d i) (\<lambda>d'. add_issues d' rest)"

text \<open>The block that inserts the comments: section break, heading, then the issues.\<close>

definition insert_comments :: "docx \<Rightarrow> Issue list \<Rightarrow> error + docx" where
  "insert_comments doc iss =
     and_then (add_heading (add_section doc) ''--- AI Analysis & Comments ---'' 2)
       (\<lambda>d. add_issues d iss)"

text \<open>
  One round of the loop over the files; \<open>Inl\<close> is the exception that leaves the round and
  with it the whole call. The progress callback and the pause at the end of the round do
  not touch the state and are left out.
\<close>

definition process_file :: "loop_state \<Rightarrow> upload \<Rightarrow> error + loop_state" where
  "process_file st file =
     (let doc_name = basename (name file)
      in and_then (load_document (fs st) (name file) doc_name)
           (\<lambda>doc.
              let checklist' = update_checklist doc_name (checklist st);
                  analysis_result = simulate_llm_analysis doc_name;
                  all_issues' = (if issues analysis_result = [] then all_issues st
                                 else all_issues st @
                                      map (tag_issue doc_name) (issues analysis_result))
              in and_then (if issues analysis_result = [] then Inr doc
                           else insert_comments doc (issues analysis_result))
                   (\<lambda>doc'.
                      let reviewed_file_path = path_join output_dir (''reviewed_'' @ doc_name)
                      in and_then (save_document (fs st) reviewed_file_path doc')
                           (\<lambda>w'. Inr \<lparr>checklist = checklist',
                                      all_issues = all_issues',
                                      reviewed_file_paths =
                                        reviewed_file_paths st @ [reviewed_file_path],
                                      fs = w'\<rparr>))))"

text \<open>
  The loop: an exception ends it, and what remains is the exception and the file system
  as the completed rounds left it.
\<close>

fun process_files :: "upload list \<Rightarrow> loop_state \<Rightarrow> error \<times> filesystem + loop_state" where
  "process_files [] st = Inr st"
| "process_files (file # rest) st =
     (case process_file st file of
        Inl e \<Rightarrow> Inl (e, fs st)
      | Inr st' \<Rightarrow> process_files rest st')"

text \<open>The statements before the loop: the empty lists and the output directory.\<close>

definition prepare :: "filesystem \<Rightarrow> error + loop_state" where
  "prepare w =
     and_then (if path_exists w output_dir then Inr w else makedirs w output_dir)
       (\<lambda>w1. Inr \<lparr>checklist = incorporation_checklist, all_issues = [],
                  reviewed_file_paths = [], fs = w1\<rparr>)"

definition summary_head :: "nat \<Rightarrow> nat \<Rightarrow> string" where
  "summary_head uploaded required =
     ''It appears you'' @ [CHR 0x27] @ ''re trying to incorporate a company in ADGM. You have uploaded '' @
     str_nat uploaded @ '' out of '' @ str_nat required @ '' required documents.''"

text \<open>The statements after the loop: the summary and the report.\<close>

definition final_report :: "upload list \<Rightarrow> loop_state \<Rightarrow> string \<times> BatchReport \<times> string list" where
  "final_report files st =
     (let missing_docs = map fst (filter (\<lambda>(doc, found). \<not> found) (checklist st));
          checklist_summary =
            summary_head (length files) (length (checklist st)) @
            (case missing_docs of
               m # _ \<Rightarrow> [CHR 0x0A, CHR 0x0A] @ ''The missing document appears to be: '' @
                        [CHR 0x27] @ m @ [CHR 0x27] @ ''.''
             | [] \<Rightarrow> [CHR 0x0A, CHR 0x0A] @
                     ''All required documents for incorporation appear to be present.'');
          report =
            \<lparr>process = ''Company Incorporation'',
             documents_uploaded = length files,
             required_documents = length (checklist st),
             missing_document = (case missing_docs of m # _ \<Rightarrow> m | [] \<Rightarrow> ''None''),
             issues_found = all_issues st\<rparr>
      in (checklist_summary, report, reviewed_file_paths st))"

text \<open>
  \<open>analyze_documents\<close>: the result is the raised exception or the returned triple,
  together with the file system the call leaves behind. The argument is the list of
  uploaded files; \<open>None\<close> in its place is rejected by the same test as the empty list.
\<close>

definition analyze_documents ::
  "upload list \<Rightarrow> filesystem \<Rightarrow> (error + string \<times> BatchReport \<times> string list) \<times> filesystem" where
  "analyze_documents files w =
     (if files = [] then (Inl (GrError ''Please upload at least one document.''), w)
      else case prepare w of
             Inl e \<Rightarrow> (Inl e, w)
           | Inr st0 \<Rightarrow>
               (case process_files files st0 of
                  Inl (e, w') \<Rightarrow> (Inl e, w')
                | Inr st \<Rightarrow> (Inr (final_report files st), fs st)))"

section \<open>The blocks of a reviewed document\<close>

text \<open>
  The blocks that a round adds: the two paragraphs of the \<open>except\<close> block, the three
  paragraphs of one issue, and the whole comment section.
\<close>

abbreviation placeholder_blocks :: "string \<Rightarrow> block list" where
  "placeholder_blocks d \<equiv>
     [Para (''Original content of '' @ d @ '' would be here.'') None,
      Para ''(Could not fully parse original, but analysis is proceeding based on filename)'' None]"

abbreviation comment_blocks :: "Issue \<Rightarrow> block list" where
  "comment_blocks i \<equiv>
     [Para (''COMMENT: In section '' @ [CHR 0x27] @ section_name i @ [CHR 0x27] @
            '', an issue was found: '' @ [CHR 0x27] @ issue i @ [CHR 0x27] @
            '' (Severity: '' @ severity i @ '').'')
           (Some ''Intense Quote''),
      Para (''SUGGESTION: '' @ suggestion i) None,
      Para [] None]"

abbreviation comment_section :: "Issue list \<Rightarrow> block list" where
  "comment_section iss \<equiv>
     (if iss = [] then []
      else [SectionBreak, Para ''--- AI Analysis & Comments ---'' (Some ''Heading 2'')] @
           concat (map comment_blocks iss))"

section \<open>Facts about the string operations\<close>

lemma py_in_sublist: "py_in sub s = sublist sub s"
  by (induction s) (auto simp: sublist_Cons_right)

lemma py_lower_sublist: "sublist k s \<Longrightarrow> sublist (py_lower k) (py_lower s)"
  unfolding py_lower_def by (rule map_mono_sublist)

lemma basename_no_slash: "CHR ''/'' \<notin> set (basename p)"
  unfolding basename_def by (auto dest: set_takeWhileD)

lemma reviewed_path: "path_join output_dir (''reviewed_'' @ d) = ''reviewed_docs/reviewed_'' @ d"
  by (simp add: path_join_def output_dir_def suffix_to_prefix)

lemma dirname_reviewed:
  assumes "CHR ''/'' \<notin> set d"
  shows "dirname (''reviewed_docs/reviewed_'' @ d) = ''reviewed_docs''"
proof -
  have "dropWhile (\<lambda>c. c \<noteq> CHR ''/'') (rev d @ rev ''reviewed_docs/reviewed_'') =
        dropWhile (\<lambda>c. c \<noteq> CHR ''/'') (rev ''reviewed_docs/reviewed_'')"
    using assms by (intro dropWhile_append2) auto
  then show ?thesis
    by (simp add: dirname_def)
qed

lemma xml_compatible_append [simp]:
  "xml_compatible (a @ b) = (xml_compatible a \<and> xml_compatible b)"
  by (simp add: xml_compatible_def)

lemma xml_compatible_Nil [simp]: "xml_compatible []"
  by (simp add: xml_compatible_def)

lemma xml_compatible_Cons [simp]:
  "xml_compatible (c # s) =
     ((32 \<le> (of_char c :: nat) \<or> of_char c = (9 :: nat) \<or> of_char c = (10 :: nat) \<or>
       of_char c = (13 :: nat)) \<and> xml_compatible s)"
  by (simp add: xml_compatible_def Let_def)

lemma str_nat_digits: "str_nat 2 = ''2''" "str_nat 7 = ''7''"
  by (subst str_nat.simps, simp add: digit_char_def)+

lemma str_nat_Suc_Suc_0: "str_nat (Suc (Suc 0)) = ''2''"
  using str_nat_digits(1) by (simp only: numeral_2_eq_2)

lemma default_styles_used:
  "''Heading 2'' \<in> default_styles" "''Intense Quote'' \<in> default_styles"
  by (simp_all add: default_styles_def)

section \<open>The steps of a round\<close>

lemma and_then_simps [simp]:
  "and_then (Inl e) k = Inl e"
  "and_then (Inr x) k = k x"
  by (simp_all add: and_then_def)

lemma and_then_Inr_iff:
  "and_then r k = Inr y \<longleftrightarrow> (\<exists>x. r = Inr x \<and> k x = Inr y)"
  by (cases r) simp_all

lemma load_document_eq:
  "load_document w p d =
     (case open_document w p of
        Some doc \<Rightarrow> Inr doc
      | None \<Rightarrow>
          if xml_compatible d
          then Inr \<lparr>blocks = placeholder_blocks d, styles = default_styles\<rparr>
          else Inl ValueError)"
proof -
  have a: "xml_compatible ''Original content of ''" "xml_compatible '' would be here.''"
    by (simp_all add: xml_compatible_def)
  have b: "xml_compatible
     ''(Could not fully parse original, but analysis is proceeding based on filename)''"
    by code_simp
  show ?thesis
    by (simp add: load_document_def add_paragraph_def new_document_def a b split: option.split)
qed

lemma add_issue_paragraphs_eq:
  assumes "xml_compatible (section_name i) \<and> xml_compatible (issue i) \<and>
           xml_compatible (severity i) \<and> xml_compatible (suggestion i)"
  shows "add_issue_paragraphs d i =
           (if ''Intense Quote'' \<in> styles d
            then Inr (d\<lparr>blocks := blocks d @ comment_blocks i\<rparr>)
            else Inl (KeyError ''Intense Quote''))"
proof -
  have fixed: "xml_compatible ''COMMENT: In section ''" "xml_compatible [CHR 0x27]"
    "xml_compatible '', an issue was found: ''" "xml_compatible '' (Severity: ''"
    "xml_compatible '').''" "xml_compatible ''SUGGESTION: ''"
    by (simp_all add: xml_compatible_def)
  show ?thesis
    using assms
    by (simp add: add_issue_paragraphs_def add_paragraph_def fixed)
qed

lemma add_issues_eq:
  assumes "\<forall>i \<in> set iss. xml_compatible (section_name i) \<and> xml_compatible (issue i) \<and>
             xml_compatible (severity i) \<and> xml_compatible (suggestion i)"
  shows "add_issues d iss =
           (if iss = [] \<or> ''Intense Quote'' \<in> styles d
            then Inr (d\<lparr>blocks := blocks d @ concat (map comment_blocks iss)\<rparr>)
            else Inl (KeyError ''Intense Quote''))"
  using assms
proof (induction iss arbitrary: d)
  case Nil
  then show ?case by simp
next
  case (Cons i rest)
  then show ?case
    by (simp add: add_issue_paragraphs_eq)
qed

lemma insert_comments_eq:
  assumes "\<forall>i \<in> set iss. xml_compatible (section_name i) \<and> xml_compatible (issue i) \<and>
             xml_compatible (severity i) \<and> xml_compatible (suggestion i)" and "iss \<noteq> []"
  shows "insert_comments doc iss =
           (if ''Heading 2'' \<notin> styles doc then Inl (KeyError ''Heading 2'')
            else if ''Intense Quote'' \<notin> styles doc then Inl (KeyError ''Intense Quote'')
            else Inr (doc\<lparr>blocks := blocks doc @ comment_section iss\<rparr>))"
proof -
  have h: "xml_compatible ''--- AI Analysis & Comments ---''"
    by (simp add: xml_compatible_def)
  show ?thesis
    using assms
    by (simp add: insert_comments_def add_heading_def add_section_def add_paragraph_def
        str_nat_digits h add_issues_eq)
qed

lemma classifier_issue_texts:
  "\<forall>i \<in> set (issues (simulate_llm_analysis n)).
     xml_compatible (section_name i) \<and> xml_compatible (issue i) \<and>
     xml_compatible (severity i) \<and> xml_compatible (suggestion i)"
  by (simp add: simulate_llm_analysis_def Let_def)

lemma save_document_reviewed:
  assumes "CHR ''/'' \<notin> set d"
  shows "save_document w (''reviewed_docs/reviewed_'' @ d) doc =
           (if resolve w ''reviewed_docs'' \<notin> directories w \<or>
               resolve w (''reviewed_docs/reviewed_'' @ d) \<in> directories w \<or>
               resolve w (''reviewed_docs/reviewed_'' @ d) \<in> unwritable w
            then Inl OSError
            else Inr (w\<lparr>contents :=
                        (contents w)(resolve w (''reviewed_docs/reviewed_'' @ d) \<mapsto> Docx doc)\<rparr>))"
  by (simp only: save_document_def dirname_reviewed [OF assms]) simp

text \<open>A round, with the steps that can raise written out.\<close>

lemma process_file_eq:
  "process_file st f =
     and_then
       (case open_document (fs st) (name f) of
          Some doc \<Rightarrow>
            if issues (simulate_llm_analysis (basename (name f))) \<noteq> [] \<and>
               ''Heading 2'' \<notin> styles doc
            then Inl (KeyError ''Heading 2'')
            else if issues (simulate_llm_analysis (basename (name f))) \<noteq> [] \<and>
                    ''Intense Quote'' \<notin> styles doc
            then Inl (KeyError ''Intense Quote'')
            else Inr (doc\<lparr>blocks := blocks doc @
                        comment_section (issues (simulate_llm_analysis (basename (name f))))\<rparr>)
        | None \<Rightarrow>
            if \<not> xml_compatible (basename (name f)) then Inl ValueError
            else Inr \<lparr>blocks = placeholder_blocks (basename (name f)) @
                        comment_section (issues (simulate_llm_analysis (basename (name f)))),
                      styles = default_styles\<rparr>)
       (\<lambda>doc'.
          and_then (save_document (fs st) (''reviewed_docs/reviewed_'' @ basename (name f)) doc')
            (\<lambda>w'. Inr \<lparr>checklist = update_checklist (basename (name f)) (checklist st),
                       all_issues = all_issues st @
                         map (tag_issue (basename (name f)))
                           (issues (simulate_llm_analysis (basename (name f)))),
                       reviewed_file_paths = reviewed_file_paths st @
                         [''reviewed_docs/reviewed_'' @ basename (name f)],
                       fs = w'\<rparr>))"
proof -
  let ?d = "basename (name f)"
  let ?iss = "issues (simulate_llm_analysis ?d)"
  note texts = classifier_issue_texts [of ?d]
  show ?thesis
  proof (cases "open_document (fs st) (name f)")
    case None
    show ?thesis
    proof (cases "xml_compatible ?d")
      case False
      with None show ?thesis
        by (simp add: process_file_def Let_def load_document_eq)
    next
      case True
      show ?thesis
      proof (cases "?iss = []")
        case True
        with None \<open>xml_compatible ?d\<close> show ?thesis
          by (simp only: process_file_def Let_def load_document_eq reviewed_path) simp
      next
        case False
        with None \<open>xml_compatible ?d\<close> show ?thesis
          by (simp only: process_file_def Let_def load_document_eq reviewed_path
                insert_comments_eq [OF texts False])
             (simp add: default_styles_used)
      qed
    qed
  next
    case (Some doc)
    show ?thesis
    proof (cases "?iss = []")
      case True
      with Some show ?thesis
        by (simp only: process_file_def Let_def load_document_eq reviewed_path) simp
    next
      case False
      with Some show ?thesis
        by (simp only: process_file_def Let_def load_document_eq reviewed_path
              insert_comments_eq [OF texts False])
           simp
    qed
  qed
qed

section \<open>The checklist loop\<close>

text \<open>
  On a dictionary with distinct keys, assigning \<open>True\<close> to the matching keys one
  after the other is one pass that takes the disjunction with the test.
\<close>


lemma update_as_map:
  "distinct (map fst cl) \<Longrightarrow> k \<in> fst ` set cl \<Longrightarrow>
   AList.update k v cl = map (\<lambda>(k', v'). (k', if k' = k then v else v')) cl"
proof (induction cl)
  case Nil
  then show ?case by simp
next
  case (Cons p ps)
  show ?case
  proof (cases "fst p = k")
    case True
    with Cons.prems have "k \<notin> fst ` set ps" by auto
    then have "map (\<lambda>(k', v'). (k', if k' = k then v else v')) ps = ps"
      by (induction ps) auto
    with True show ?thesis by (cases p) simp
  next
    case False
    with Cons show ?thesis by (cases p) auto
  qed
qed

lemma fold_update_as_map:
  "distinct (map fst cl) \<Longrightarrow> set ks \<subseteq> fst ` set cl \<Longrightarrow>
   fold (\<lambda>key c. if P key then AList.update key True c else c) ks cl =
   map (\<lambda>(k, v). (k, v \<or> (k \<in> set ks \<and> P k))) cl"
proof (induction ks arbitrary: cl)
  case Nil
  then show ?case by simp
next
  case (Cons k ks)
  let ?step = "\<lambda>key c. if P key then AList.update key True c else c"
  let ?cl' = "?step k cl"
  have k_in: "k \<in> fst ` set cl" using Cons.prems by simp
  have cl': "?cl' = map (\<lambda>(k', v'). (k', v' \<or> (k' = k \<and> P k'))) cl"
  proof (cases "P k")
    case True
    have "AList.update k True cl = map (\<lambda>(k', v'). (k', if k' = k then True else v')) cl"
      using Cons.prems(1) k_in by (rule update_as_map)
    also have "\<dots> = map (\<lambda>(k', v'). (k', v' \<or> (k' = k \<and> P k'))) cl"
      using True by (intro map_cong) (auto split: if_splits)
    finally show ?thesis using True by simp
  next
    case False
    have "map (\<lambda>(k', v'). (k', v' \<or> (k' = k \<and> P k'))) cl = map (\<lambda>p. p) cl"
      using False by (intro map_cong) auto
    with False show ?thesis by simp
  qed
  have keys: "map fst ?cl' = map fst cl"
    by (subst cl') (simp add: comp_def case_prod_unfold)
  have "fold ?step (k # ks) cl = fold ?step ks ?cl'" by simp
  also have "\<dots> = map (\<lambda>(k, v). (k, v \<or> (k \<in> set ks \<and> P k))) ?cl'"
  proof (rule Cons.IH)
    show "distinct (map fst ?cl')" using Cons.prems(1) keys by simp
    have "fst ` set ?cl' = fst ` set cl" using keys by (metis list.set_map)
    then show "set ks \<subseteq> fst ` set ?cl'" using Cons.prems(2) by simp
  qed
  also have "\<dots> = map (\<lambda>(k', v). (k', v \<or> (k' \<in> set (k # ks) \<and> P k'))) cl"
    by (subst cl') (auto simp: comp_def case_prod_unfold)
  finally show ?case .
qed

lemma update_checklist_as_map:
  assumes "distinct (map fst cl)"
  shows "update_checklist doc_name cl =
         map (\<lambda>(k, v). (k, v \<or> sublist (simplified_key k) (py_lower doc_name))) cl"
proof -
  have "update_checklist doc_name cl =
        map (\<lambda>(k, v). (k, v \<or> (k \<in> set (map fst cl) \<and> py_in (simplified_key k) (py_lower doc_name)))) cl"
    unfolding update_checklist_def using assms by (intro fold_update_as_map) auto
  also have "\<dots> = map (\<lambda>(k, v). (k, v \<or> sublist (simplified_key k) (py_lower doc_name))) cl"
    by (intro map_cong) (auto simp: py_in_sublist rev_image_eqI)
  finally show ?thesis .
qed


lemma distinct_incorporation_checklist: "distinct (map fst incorporation_checklist)"
  by (simp add: incorporation_checklist_def)

lemma foldl_update_checklist:
  "distinct (map fst cl) \<Longrightarrow>
   foldl (\<lambda>c f. update_checklist (basename (name f)) c) cl files =
   map (\<lambda>(k, v). (k, v \<or> (\<exists>f \<in> set files. sublist (simplified_key k) (py_lower (basename (name f))))))
     cl"
proof (induction files arbitrary: cl)
  case Nil
  then show ?case by (simp add: case_prod_unfold)
next
  case (Cons f rest)
  let ?cl' = "update_checklist (basename (name f)) cl"
  have c': "?cl' =
      map (\<lambda>(k, v). (k, v \<or> sublist (simplified_key k) (py_lower (basename (name f))))) cl"
    using Cons.prems by (simp add: update_checklist_as_map)
  then have "map fst ?cl' = map fst cl"
    by (simp add: comp_def case_prod_unfold)
  with Cons.prems have "distinct (map fst ?cl')" by simp
  then have "foldl (\<lambda>c f. update_checklist (basename (name f)) c) ?cl' rest =
      map (\<lambda>(k, v). (k, v \<or> (\<exists>f \<in> set rest. sublist (simplified_key k) (py_lower (basename (name f))))))
        ?cl'"
    by (rule Cons.IH)
  then show ?case
    by (subst (asm) (2) c') (auto simp: comp_def case_prod_unfold)
qed

lemma final_checklist:
  "foldl (\<lambda>c f. update_checklist (basename (name f)) c) incorporation_checklist files =
   map (\<lambda>(k, v). (k, \<exists>f \<in> set files. sublist (simplified_key k) (py_lower (basename (name f)))))
     incorporation_checklist"
proof -
  have "\<forall>p \<in> set incorporation_checklist. \<not> snd p"
    by (simp add: incorporation_checklist_def)
  then show ?thesis
    using foldl_update_checklist [OF distinct_incorporation_checklist, of files]
    by (auto simp: case_prod_unfold)
qed

lemma simplified_key_values:
  "simplified_key ''Articles of Association (AoA)'' = ''articles of association''"
  "simplified_key ''Memorandum of Association (MoA/MoU)'' = ''memorandum of association''"
  "simplified_key ''Board Resolution Templates'' = ''board resolution templates''"
  "simplified_key ''Shareholder Resolution Templates'' = ''shareholder resolution templates''"
  "simplified_key ''Incorporation Application Form'' = ''incorporation application form''"
  "simplified_key ''UBO Declaration Form'' = ''ubo declaration form''"
  "simplified_key ''Register of Members and Directors'' = ''register of members and directors''"
  by code_simp+

lemma final_checklist_explicit:
  "foldl (\<lambda>c f. update_checklist (basename (name f)) c) incorporation_checklist files =
     [(''Articles of Association (AoA)'',
         \<exists>f \<in> set files. sublist ''articles of association'' (py_lower (basename (name f)))),
      (''Memorandum of Association (MoA/MoU)'',
         \<exists>f \<in> set files. sublist ''memorandum of association'' (py_lower (basename (name f)))),
      (''Board Resolution Templates'',
         \<exists>f \<in> set files. sublist ''board resolution templates'' (py_lower (basename (name f)))),
      (''Shareholder Resolution Templates'',
         \<exists>f \<in> set files. sublist ''shareholder resolution templates'' (py_lower (basename (name f)))),
      (''Incorporation Application Form'',
         \<exists>f \<in> set files. sublist ''incorporation application form'' (py_lower (basename (name f)))),
      (''UBO Declaration Form'',
         \<exists>f \<in> set files. sublist ''ubo declaration form'' (py_lower (basename (name f)))),
      (''Register of Members and Directors'',
         \<exists>f \<in> set files. sublist ''register of members and directors'' (py_lower (basename (name f))))]"
  by (simp only: final_checklist)
     (simp add: incorporation_checklist_def simplified_key_values)

lemma update_keeps_True:
  "(label, True) \<in> set c \<Longrightarrow> (label, True) \<in> set (AList.update key True c)"
  by (induction c) auto

lemma update_checklist_keeps_True:
  "(label, True) \<in> set cl \<Longrightarrow> (label, True) \<in> set (update_checklist d cl)"
proof -
  have "(label, True) \<in> set c \<Longrightarrow>
        (label, True) \<in> set (fold (\<lambda>key c. if P key then AList.update key True c else c) ks c)"
    for P ks and c :: "(string \<times> bool) list"
    by (induction ks arbitrary: c) (auto intro: update_keeps_True)
  then show "(label, True) \<in> set cl \<Longrightarrow> ?thesis"
    by (simp add: update_checklist_def)
qed

lemma foldl_update_checklist_keeps_True:
  "(label, True) \<in> set cl \<Longrightarrow>
   (label, True) \<in> set (foldl (\<lambda>c f. update_checklist (basename (name f)) c) cl files)"
  by (induction files arbitrary: cl) (auto intro: update_checklist_keeps_True)

section \<open>Matching without regard to case\<close>

lemma lower_char_ascii:
  assumes "of_char a < (128 :: nat)"
  shows "lower_char c = a \<longleftrightarrow>
         (if 65 \<le> (of_char c :: nat) \<and> (of_char c :: nat) \<le> 90
          then char_of (of_char c + 32 :: nat) else c) = a"
proof (cases "192 \<le> (of_char c :: nat) \<and> (of_char c :: nat) \<le> 222 \<and> (of_char c :: nat) \<noteq> 215")
  case True
  then have l: "lower_char c = char_of (of_char c + 32 :: nat)"
    by (simp add: lower_char_def Let_def)
  have "(of_char (char_of (of_char c + 32 :: nat)) :: nat) = of_char c + 32"
    using True by simp
  with True assms have "of_char (lower_char c) \<noteq> (of_char a :: nat)"
    by (simp only: l) arith
  then have "lower_char c \<noteq> a" by auto
  moreover from True assms have "of_char c \<noteq> (of_char a :: nat)" by arith
  then have "c \<noteq> a" by auto
  ultimately show ?thesis using True by simp
next
  case False
  then show ?thesis
    by (auto simp: lower_char_def Let_def)
qed

lemma py_lower_ascii:
  assumes "\<forall>a \<in> set key. of_char a < (128 :: nat)"
  shows "py_lower k = key \<longleftrightarrow>
         map (\<lambda>c. if 65 \<le> (of_char c :: nat) \<and> (of_char c :: nat) \<le> 90
                   then char_of (of_char c + 32 :: nat) else c) k = key"
  using assms
proof (induction k arbitrary: key)
  case Nil
  then show ?case by (simp add: py_lower_def)
next
  case (Cons c k)
  show ?case
  proof (cases key)
    case Nil
    then show ?thesis by (simp add: py_lower_def)
  next
    case (Cons a key')
    with Cons.prems have a: "of_char a < (128 :: nat)" and
      rest: "\<forall>a \<in> set key'. of_char a < (128 :: nat)" by simp_all
    from Cons.IH [OF rest] lower_char_ascii [OF a, of c] Cons show ?thesis
      by (simp add: py_lower_def)
  qed
qed

lemma key_occurs_any_case:
  assumes "\<forall>a \<in> set key. of_char a < (128 :: nat)"
  shows "sublist key (py_lower s) \<longleftrightarrow>
         (\<exists>k. sublist k s \<and>
              map (\<lambda>c. if 65 \<le> (of_char c :: nat) \<and> (of_char c :: nat) \<le> 90
                        then char_of (of_char c + 32 :: nat) else c) k = key)"
proof -
  have "sublist key (py_lower s) \<longleftrightarrow> (\<exists>k. sublist k s \<and> py_lower k = key)"
  proof
    assume "sublist key (py_lower s)"
    then have "\<exists>k. sublist k s \<and> key = map lower_char k"
      unfolding py_lower_def by (rule sublist_map_rightE)
    then show "\<exists>k. sublist k s \<and> py_lower k = key"
      by (auto simp: py_lower_def)
  next
    assume "\<exists>k. sublist k s \<and> py_lower k = key"
    then show "sublist key (py_lower s)"
      by (auto intro: py_lower_sublist)
  qed
  then show ?thesis
    by (simp only: py_lower_ascii [OF assms])
qed

section \<open>The rounds that complete\<close>

lemma process_file_Inr:
  assumes "process_file st f = Inr st'"
  shows "checklist st' = update_checklist (basename (name f)) (checklist st)"
    and "all_issues st' = all_issues st @
           map (tag_issue (basename (name f))) (issues (simulate_llm_analysis (basename (name f))))"
    and "reviewed_file_paths st' =
           reviewed_file_paths st @ [''reviewed_docs/reviewed_'' @ basename (name f)]"
    and "resolve (fs st') = resolve (fs st)"
    and "directories (fs st') = directories (fs st)"
    and "unwritable (fs st') = unwritable (fs st)"
    and "contents (fs st') =
           (contents (fs st))
             (resolve (fs st) (''reviewed_docs/reviewed_'' @ basename (name f)) \<mapsto>
                Docx (case open_document (fs st) (name f) of
                        Some doc \<Rightarrow>
                          doc\<lparr>blocks := blocks doc @
                            comment_section (issues (simulate_llm_analysis (basename (name f))))\<rparr>
                      | None \<Rightarrow>
                          \<lparr>blocks = placeholder_blocks (basename (name f)) @
                             comment_section (issues (simulate_llm_analysis (basename (name f)))),
                           styles = default_styles\<rparr>))"
  using assms
  unfolding process_file_eq save_document_reviewed [OF basename_no_slash]
  by (auto simp: and_then_Inr_iff split: option.splits if_splits)

lemma process_file_Inr_iff:
  "(\<exists>st'. process_file st f = Inr st') \<longleftrightarrow>
     (case open_document (fs st) (name f) of
        Some doc \<Rightarrow>
          issues (simulate_llm_analysis (basename (name f))) = [] \<or>
          ''Heading 2'' \<in> styles doc \<and> ''Intense Quote'' \<in> styles doc
      | None \<Rightarrow> xml_compatible (basename (name f))) \<and>
     resolve (fs st) ''reviewed_docs'' \<in> directories (fs st) \<and>
     resolve (fs st) (''reviewed_docs/reviewed_'' @ basename (name f)) \<notin> directories (fs st) \<and>
     resolve (fs st) (''reviewed_docs/reviewed_'' @ basename (name f)) \<notin> unwritable (fs st)"
  unfolding process_file_eq save_document_reviewed [OF basename_no_slash]
  by (auto simp: and_then_Inr_iff split: option.splits if_splits)

section \<open>The loop over the files\<close>

lemma process_files_Cons_Inr:
  "process_files (f # rest) st = Inr st' \<longleftrightarrow>
     (\<exists>s. process_file st f = Inr s \<and> process_files rest s = Inr st')"
  by (cases "process_file st f") simp_all


lemma process_files_checklist:
  "process_files files st = Inr st' \<Longrightarrow>
   checklist st' = foldl (\<lambda>c f. update_checklist (basename (name f)) c) (checklist st) files"
proof (induction files arbitrary: st)
  case Nil
  then show ?case by simp
next
  case (Cons f rest)
  from Cons.prems obtain s where s: "process_file st f = Inr s" "process_files rest s = Inr st'"
    unfolding process_files_Cons_Inr by blast
  from Cons.IH [OF s(2)] process_file_Inr(1) [OF s(1)] show ?case by simp
qed

lemma process_files_all_issues:
  "process_files files st = Inr st' \<Longrightarrow>
   all_issues st' = all_issues st @
     concat (map (\<lambda>f. map (tag_issue (basename (name f)))
                         (issues (simulate_llm_analysis (basename (name f))))) files)"
proof (induction files arbitrary: st)
  case Nil
  then show ?case by simp
next
  case (Cons f rest)
  from Cons.prems obtain s where s: "process_file st f = Inr s" "process_files rest s = Inr st'"
    unfolding process_files_Cons_Inr by blast
  from Cons.IH [OF s(2)] process_file_Inr(2) [OF s(1)] show ?case by simp
qed

lemma process_files_paths:
  "process_files files st = Inr st' \<Longrightarrow>
   reviewed_file_paths st' = reviewed_file_paths st @
     map (\<lambda>f. ''reviewed_docs/reviewed_'' @ basename (name f)) files"
proof (induction files arbitrary: st)
  case Nil
  then show ?case by simp
next
  case (Cons f rest)
  from Cons.prems obtain s where s: "process_file st f = Inr s" "process_files rest s = Inr st'"
    unfolding process_files_Cons_Inr by blast
  from Cons.IH [OF s(2)] process_file_Inr(3) [OF s(1)] show ?case by simp
qed


lemma process_files_other:
  "process_files files st = Inr st' \<Longrightarrow>
   l \<notin> resolve (fs st) ` set (map (\<lambda>f. ''reviewed_docs/reviewed_'' @ basename (name f)) files) \<Longrightarrow>
   contents (fs st') l = contents (fs st) l"
proof (induction files arbitrary: st)
  case Nil
  then show ?case by simp
next
  case (Cons f rest)
  from Cons.prems(1) obtain s where s: "process_file st f = Inr s" "process_files rest s = Inr st'"
    unfolding process_files_Cons_Inr by blast
  note r = process_file_Inr(4) [OF s(1)]
  from Cons.prems(2) have
    "l \<notin> resolve (fs s) ` set (map (\<lambda>f. ''reviewed_docs/reviewed_'' @ basename (name f)) rest)"
    by (simp add: r)
  from Cons.IH [OF s(2) this] have "contents (fs st') l = contents (fs s) l" .
  also have "\<dots> = contents (fs st) l"
    using Cons.prems(2) by (simp add: process_file_Inr(7) [OF s(1)])
  finally show ?case .
qed

lemma process_files_written:
  "process_files files st = Inr st' \<Longrightarrow>
   p \<in> set (map (\<lambda>f. ''reviewed_docs/reviewed_'' @ basename (name f)) files) \<Longrightarrow>
   \<exists>d. contents (fs st') (resolve (fs st) p) = Some (Docx d)"
proof (induction files arbitrary: st p)
  case Nil
  then show ?case by simp
next
  case (Cons f rest)
  from Cons.prems(1) obtain s where s: "process_file st f = Inr s" "process_files rest s = Inr st'"
    unfolding process_files_Cons_Inr by blast
  note r = process_file_Inr(4) [OF s(1)]
  show ?case
  proof (cases "resolve (fs st) p \<in>
      resolve (fs st) ` set (map (\<lambda>f. ''reviewed_docs/reviewed_'' @ basename (name f)) rest)")
    case True
    then obtain q where q: "q \<in> set (map (\<lambda>f. ''reviewed_docs/reviewed_'' @ basename (name f)) rest)"
      "resolve (fs st) p = resolve (fs st) q" by auto
    from Cons.IH [OF s(2) q(1)] show ?thesis by (simp add: r q(2))
  next
    case False
    then have "resolve (fs st) p \<notin>
      resolve (fs s) ` set (map (\<lambda>f. ''reviewed_docs/reviewed_'' @ basename (name f)) rest)"
      by (simp add: r)
    from process_files_other [OF s(2) this]
    have eq: "contents (fs st') (resolve (fs st) p) = contents (fs s) (resolve (fs st) p)" .
    from False Cons.prems(2) have pe: "resolve (fs st) p =
        resolve (fs st) (''reviewed_docs/reviewed_'' @ basename (name f))"
      by auto
    have "\<exists>d. contents (fs s)
            (resolve (fs st) (''reviewed_docs/reviewed_'' @ basename (name f))) = Some (Docx d)"
      by (simp add: process_file_Inr(7) [OF s(1)])
    then show ?thesis
      using eq unfolding pe by simp
  qed
qed

section \<open>Before and after the loop\<close>

lemma prepare_Inr:
  assumes "prepare w = Inr st0"
  shows "checklist st0 = incorporation_checklist" and "all_issues st0 = []"
    and "reviewed_file_paths st0 = []"
    and "resolve (fs st0) = resolve w" and "contents (fs st0) = contents w"
    and "unwritable (fs st0) = unwritable w"
    and "directories (fs st0) =
           (if path_exists w ''reviewed_docs'' then directories w
            else insert (resolve w ''reviewed_docs'') (directories w))"
  using assms
  by (auto simp: prepare_def makedirs_def output_dir_def split: if_splits)

lemma prepare_Inr_iff:
  "(\<exists>st0. prepare w = Inr st0) \<longleftrightarrow>
     path_exists w ''reviewed_docs'' \<or> resolve w ''reviewed_docs'' \<notin> unwritable w"
  by (auto simp: prepare_def makedirs_def output_dir_def)

lemma analyze_documents_Inr_iff:
  "analyze_documents files w = (Inr t, w') \<longleftrightarrow>
     files \<noteq> [] \<and>
     (\<exists>st0 st. prepare w = Inr st0 \<and> process_files files st0 = Inr st \<and>
        t = final_report files st \<and> w' = fs st)"
  by (auto simp: analyze_documents_def split: sum.splits prod.splits)

lemma length_final_checklist:
  "length (foldl (\<lambda>c f. update_checklist (basename (name f)) c) incorporation_checklist files) = 7"
  by (simp add: final_checklist) (simp add: incorporation_checklist_def)

section \<open>Batches that return\<close>

lemma open_document_process_file:
  assumes "process_file st f = Inr s"
    and "resolve (fs st) p \<noteq> resolve (fs st) (''reviewed_docs/reviewed_'' @ basename (name f))"
  shows "open_document (fs s) p = open_document (fs st) p"
  using assms(2)
  by (simp add: open_document_def process_file_Inr(4) [OF assms(1)]
      process_file_Inr(7) [OF assms(1)])

lemma process_files_returns:
  assumes "resolve (fs st) ''reviewed_docs'' \<in> directories (fs st)"
    and "\<forall>f \<in> set files.
           resolve (fs st) (''reviewed_docs/reviewed_'' @ basename (name f)) \<notin> directories (fs st) \<and>
           resolve (fs st) (''reviewed_docs/reviewed_'' @ basename (name f)) \<notin> unwritable (fs st)"
    and "\<forall>f \<in> set files. \<forall>g \<in> set files.
           resolve (fs st) (name f) \<noteq>
           resolve (fs st) (''reviewed_docs/reviewed_'' @ basename (name g))"
    and "\<forall>f \<in> set files.
           case open_document (fs st) (name f) of
             Some doc \<Rightarrow>
               issues (simulate_llm_analysis (basename (name f))) = [] \<or>
               ''Heading 2'' \<in> styles doc \<and> ''Intense Quote'' \<in> styles doc
           | None \<Rightarrow> xml_compatible (basename (name f))"
  shows "\<exists>st'. process_files files st = Inr st'"
  using assms
proof (induction files arbitrary: st)
  case Nil
  show ?case by simp
next
  case (Cons f rest)
  have "\<exists>s. process_file st f = Inr s"
    unfolding process_file_Inr_iff using Cons.prems by simp
  then obtain s where s: "process_file st f = Inr s" ..
  note frame = process_file_Inr(4,5,6) [OF s]
  have opens: "open_document (fs s) (name g) = open_document (fs st) (name g)"
    if "g \<in> set rest" for g
    using that Cons.prems(3) by (intro open_document_process_file [OF s]) simp
  have "\<exists>st'. process_files rest s = Inr st'"
  proof (rule Cons.IH)
    show "resolve (fs s) ''reviewed_docs'' \<in> directories (fs s)"
      using Cons.prems(1) by (simp add: frame)
    show "\<forall>f \<in> set rest.
           resolve (fs s) (''reviewed_docs/reviewed_'' @ basename (name f)) \<notin> directories (fs s) \<and>
           resolve (fs s) (''reviewed_docs/reviewed_'' @ basename (name f)) \<notin> unwritable (fs s)"
      using Cons.prems(2) by (simp add: frame)
    show "\<forall>f \<in> set rest. \<forall>g \<in> set rest.
           resolve (fs s) (name f) \<noteq>
           resolve (fs s) (''reviewed_docs/reviewed_'' @ basename (name g))"
      using Cons.prems(3) by (simp add: frame)
    show "\<forall>f \<in> set rest.
           case open_document (fs s) (name f) of
             Some doc \<Rightarrow>
               issues (simulate_llm_analysis (basename (name f))) = [] \<or>
               ''Heading 2'' \<in> styles doc \<and> ''Intense Quote'' \<in> styles doc
           | None \<Rightarrow> xml_compatible (basename (name f))"
      using Cons.prems(4) by (simp add: opens)
  qed
  with s show ?case
    unfolding process_files_Cons_Inr by blast
qed

lemma batch_returns:
  assumes "files \<noteq> []"
    and "resolve w ''reviewed_docs'' \<in> directories w \<or>
         \<not> path_exists w ''reviewed_docs'' \<and> resolve w ''reviewed_docs'' \<notin> unwritable w"
    and "\<forall>f \<in> set files.
           resolve w (''reviewed_docs/reviewed_'' @ basename (name f)) \<notin>
             insert (resolve w ''reviewed_docs'') (directories w) \<and>
           resolve w (''reviewed_docs/reviewed_'' @ basename (name f)) \<notin> unwritable w"
    and "\<forall>f \<in> set files. \<forall>g \<in> set files.
           resolve w (name f) \<noteq> resolve w (''reviewed_docs/reviewed_'' @ basename (name g))"
    and "\<forall>f \<in> set files.
           case open_document w (name f) of
             Some doc \<Rightarrow>
               issues (simulate_llm_analysis (basename (name f))) = [] \<or>
               ''Heading 2'' \<in> styles doc \<and> ''Intense Quote'' \<in> styles doc
           | None \<Rightarrow> xml_compatible (basename (name f))"
  shows "\<exists>t w'. analyze_documents files w = (Inr t, w')"
proof -
  from assms(2) have "\<exists>st0. prepare w = Inr st0"
    unfolding prepare_Inr_iff by (auto simp: path_exists_def)
  then obtain st0 where st0: "prepare w = Inr st0" ..
  note p = prepare_Inr [OF st0]
  have od: "open_document (fs st0) q = open_document w q" for q
    by (simp add: open_document_def p)
  have dirs: "directories (fs st0) \<subseteq> insert (resolve w ''reviewed_docs'') (directories w)"
    by (auto simp: p)
  have "\<exists>st. process_files files st0 = Inr st"
  proof (rule process_files_returns)
    show "resolve (fs st0) ''reviewed_docs'' \<in> directories (fs st0)"
      using assms(2) by (auto simp: p path_exists_def)
    show "\<forall>f \<in> set files.
           resolve (fs st0) (''reviewed_docs/reviewed_'' @ basename (name f)) \<notin> directories (fs st0) \<and>
           resolve (fs st0) (''reviewed_docs/reviewed_'' @ basename (name f)) \<notin> unwritable (fs st0)"
      using assms(3) dirs by (auto simp: p(4,6))
    show "\<forall>f \<in> set files. \<forall>g \<in> set files.
           resolve (fs st0) (name f) \<noteq>
           resolve (fs st0) (''reviewed_docs/reviewed_'' @ basename (name g))"
      using assms(4) by (simp add: p(4))
    show "\<forall>f \<in> set files.
           case open_document (fs st0) (name f) of
             Some doc \<Rightarrow>
               issues (simulate_llm_analysis (basename (name f))) = [] \<or>
               ''Heading 2'' \<in> styles doc \<and> ''Intense Quote'' \<in> styles doc
           | None \<Rightarrow> xml_compatible (basename (name f))"
      using assms(5) by (simp add: od)
  qed
  then obtain st where "process_files files st0 = Inr st" ..
  with st0 assms(1) show ?thesis
    unfolding analyze_documents_Inr_iff by blast
qed

section \<open>Lower-cased file names\<close>

lemma lower_AoA_Acme: "py_lower ''AoA_Acme.docx'' = ''aoa_acme.docx''"
  by code_simp

lemma lower_Board_Resolution_Acme:
  "py_lower ''Board_Resolution_Acme.docx'' = ''board_resolution_acme.docx''"
  by code_simp

lemma lower_randomfile: "py_lower ''randomfile.docx'' = ''randomfile.docx''"
  by code_simp

lemma lower_ARTICLES_MEMO_UBO:
  "py_lower ''ARTICLES-MEMO-UBO.docx'' = ''articles-memo-ubo.docx''"
  by code_simp

section \<open>The returned report\<close>

lemma first_missing:
  "(case map fst (filter (\<lambda>(doc, found). \<not> found) cl) of m # _ \<Rightarrow> m | [] \<Rightarrow> d) =
   (case find (\<lambda>(doc, found). \<not> found) cl of Some (m, _) \<Rightarrow> m | None \<Rightarrow> d)"
  by (induction cl) (auto split: list.splits)

lemma missing_docs_by_key:
  "(case map fst (filter (\<lambda>(doc, found). \<not> found) (map (\<lambda>(l, k). (l, H k)) lk)) of
      m # _ \<Rightarrow> m | [] \<Rightarrow> d) =
   (case filter (\<lambda>(l, k). \<not> H k) lk of (m, _) # _ \<Rightarrow> m | [] \<Rightarrow> d)"
  by (induction lk) auto

lemma final_report_fields:
  assumes "final_report files st = (summary, report, paths)"
  shows "process report = ''Company Incorporation''"
    and "documents_uploaded report = length files"
    and "required_documents report = length (checklist st)"
    and "missing_document report =
           (case map fst (filter (\<lambda>(doc, found). \<not> found) (checklist st)) of
              m # _ \<Rightarrow> m | [] \<Rightarrow> ''None'')"
    and "issues_found report = all_issues st"
    and "paths = reviewed_file_paths st"
    and "summary =
           summary_head (length files) (length (checklist st)) @ [CHR 0x0A, CHR 0x0A] @
           (case map fst (filter (\<lambda>(doc, found). \<not> found) (checklist st)) of
              m # _ \<Rightarrow> ''The missing document appears to be: '' @ [CHR 0x27] @ m @ [CHR 0x27] @ ''.''
            | [] \<Rightarrow> ''All required documents for incorporation appear to be present.'')"
  using assms by (auto simp: final_report_def Let_def split: list.splits)

lemma analyze_documents_InrD:
  assumes "analyze_documents files w = (Inr (summary, report, paths), w')"
  obtains st0 st where "files \<noteq> []" and "prepare w = Inr st0"
    and "process_files files st0 = Inr st"
    and "final_report files st = (summary, report, paths)" and "w' = fs st"
  using assms unfolding analyze_documents_Inr_iff by auto

lemma returned_checklist:
  assumes "prepare w = Inr st0" and "process_files files st0 = Inr st"
  shows "checklist st =
           foldl (\<lambda>c f. update_checklist (basename (name f)) c) incorporation_checklist files"
  by (simp add: process_files_checklist [OF assms(2)] prepare_Inr(1) [OF assms(1)])

lemma analysis_randomfile:
  "simulate_llm_analysis ''randomfile.docx'' =
     \<lparr>doc_type = ''General Document'',
      issues = [\<lparr>section_name = ''General Compliance (Simulated)'',
                 issue = ''Document format does not appear to match standard ADGM templates.'',
                 severity = ''Low'',
                 suggestion = ''Cross-reference with the official ADGM templates to ensure full compliance and formatting.''\<rparr>]\<rparr>"
  by (simp add: simulate_llm_analysis_def lower_randomfile Let_def)

section \<open>One name, two categories\<close>

lemma lower_two_keys:
  "py_lower ''Articles of Association - Memorandum of Association.docx'' =
     ''articles of association - memorandum of association.docx''"
  by code_simp

lemma two_categories_one_name:
  "update_checklist ''Articles of Association - Memorandum of Association.docx'' incorporation_checklist =
     [(''Articles of Association (AoA)'', True),
      (''Memorandum of Association (MoA/MoU)'', True),
      (''Board Resolution Templates'', False),
      (''Shareholder Resolution Templates'', False),
      (''Incorporation Application Form'', False),
      (''UBO Declaration Form'', False),
      (''Register of Members and Directors'', False)]"
  apply (subst update_checklist_as_map [OF distinct_incorporation_checklist])
  apply (simp add: lower_two_keys incorporation_checklist_def simplified_key_values
      py_in_sublist [symmetric])
  done

lemma occurs_any_case:
  assumes "\<forall>a \<in> set key. of_char a < (128 :: nat)"
  shows "(\<exists>f \<in> set files. sublist key (py_lower (basename (name f)))) =
         (\<exists>f \<in> set files. \<exists>k. sublist k (basename (name f)) \<and>
            map (\<lambda>c. if 65 \<le> (of_char c :: nat) \<and> (of_char c :: nat) \<le> 90
                      then char_of (of_char c + 32 :: nat) else c) k = key)"
  by (simp only: key_occurs_any_case [OF assms])

lemma keys_ascii:
  "\<forall>a \<in> set ''articles of association''. of_char a < (128 :: nat)"
  "\<forall>a \<in> set ''memorandum of association''. of_char a < (128 :: nat)"
  "\<forall>a \<in> set ''board resolution templates''. of_char a < (128 :: nat)"
  "\<forall>a \<in> set ''shareholder resolution templates''. of_char a < (128 :: nat)"
  "\<forall>a \<in> set ''incorporation application form''. of_char a < (128 :: nat)"
  "\<forall>a \<in> set ''ubo declaration form''. of_char a < (128 :: nat)"
  "\<forall>a \<in> set ''register of members and directors''. of_char a < (128 :: nat)"
  by simp_all

lemma lower_ARTICLES_signed:
  "py_lower ''ARTICLES OF ASSOCIATION (signed).docx'' = ''articles of association (signed).docx''"
  by code_simp

lemma lower_Ubo_Declaration_Form:
  "py_lower ''Ubo Declaration Form.docx'' = ''ubo declaration form.docx''"
  by code_simp

section \<open>A round within a batch\<close>


lemma analysis_AoA_Acme:
  "issues (simulate_llm_analysis ''AoA_Acme.docx'') =
     [\<lparr>section_name = ''Jurisdiction Clause (Simulated)'',
       issue = ''Jurisdiction clause does not explicitly specify '' @ [CHR 0x27] @
               ''ADGM Courts'' @ [CHR 0x27] @ ''.'',
       severity = ''High'',
       suggestion = ''Update the jurisdiction clause to '' @ [CHR 0x27] @
               ''ADGM Courts'' @ [CHR 0x27] @ '' to comply with ADGM regulations.''\<rparr>]"
  by (simp add: simulate_llm_analysis_def lower_AoA_Acme Let_def)

lemma analysis_Board_Resolution_Acme:
  "issues (simulate_llm_analysis ''Board_Resolution_Acme.docx'') =
     [\<lparr>section_name = ''Signatory Section (Simulated)'',
       issue = ''Missing date on the signatory page.'',
       severity = ''Medium'',
       suggestion = ''Ensure all signatory fields, including the date, are properly filled out.''\<rparr>]"
  by (simp add: simulate_llm_analysis_def lower_Board_Resolution_Acme Let_def)

section \<open>What the returned triple depends on\<close>




section \<open>The scenario with two files\<close>

lemma process_file_saved:
  assumes "process_file st f = Inr st'"
  shows "\<exists>d. contents (fs st') (resolve (fs st) (''reviewed_docs/reviewed_'' @ basename (name f))) =
               Some (Docx d) \<and>
             suffix (comment_section (issues (simulate_llm_analysis (basename (name f))))) (blocks d)"
  unfolding process_file_Inr(7) [OF assms]
  by (cases "open_document (fs st) (name f)") (simp_all add: suffix_def)

lemma scenario_triple:
  assumes "basename (name f1) = ''AoA_Acme.docx''"
    and "basename (name f2) = ''Board_Resolution_Acme.docx''"
    and "analyze_documents [f1, f2] w = (Inr t, w')"
  shows "t =
     (''It appears you'' @ [CHR 0x27] @
      ''re trying to incorporate a company in ADGM. You have uploaded 2 out of 7 required documents.'' @
      [CHR 0x0A, CHR 0x0A] @ ''The missing document appears to be: '' @ [CHR 0x27] @
      ''Articles of Association (AoA)'' @ [CHR 0x27] @ ''.'',
      \<lparr>process = ''Company Incorporation'',
       documents_uploaded = 2,
       required_documents = 7,
       missing_document = ''Articles of Association (AoA)'',
       issues_found =
         [\<lparr>section_name = ''Jurisdiction Clause (Simulated)'',
           issue = ''Jurisdiction clause does not explicitly specify '' @ [CHR 0x27] @
                   ''ADGM Courts'' @ [CHR 0x27] @ ''.'',
           severity = ''High'',
           suggestion = ''Update the jurisdiction clause to '' @ [CHR 0x27] @
                   ''ADGM Courts'' @ [CHR 0x27] @ '' to comply with ADGM regulations.'',
           document = ''AoA_Acme.docx''\<rparr>,
          \<lparr>section_name = ''Signatory Section (Simulated)'',
           issue = ''Missing date on the signatory page.'',
           severity = ''Medium'',
           suggestion = ''Ensure all signatory fields, including the date, are properly filled out.'',
           document = ''Board_Resolution_Acme.docx''\<rparr>]\<rparr>,
      [''reviewed_docs/reviewed_AoA_Acme.docx'',
       ''reviewed_docs/reviewed_Board_Resolution_Acme.docx''])"
proof -
  from assms(3) obtain st0 st where st0: "prepare w = Inr st0"
    and st: "process_files [f1, f2] st0 = Inr st" and t: "t = final_report [f1, f2] st"
    unfolding analyze_documents_Inr_iff by blast
  note cl = returned_checklist [OF st0 st]
  have len: "length (checklist st) = 7"
    unfolding cl by (rule length_final_checklist)
  have miss: "map fst (filter (\<lambda>(doc, found). \<not> found) (checklist st)) =
      [''Articles of Association (AoA)'', ''Memorandum of Association (MoA/MoU)'',
       ''Board Resolution Templates'', ''Shareholder Resolution Templates'',
       ''Incorporation Application Form'', ''UBO Declaration Form'',
       ''Register of Members and Directors'']"
    unfolding cl final_checklist_explicit
    by (simp add: assms(1,2) lower_AoA_Acme lower_Board_Resolution_Acme py_in_sublist [symmetric])
  have ai: "all_issues st =
      map (tag_issue ''AoA_Acme.docx'') (issues (simulate_llm_analysis ''AoA_Acme.docx'')) @
      map (tag_issue ''Board_Resolution_Acme.docx'')
        (issues (simulate_llm_analysis ''Board_Resolution_Acme.docx''))"
    by (simp add: process_files_all_issues [OF st] prepare_Inr(2) [OF st0] assms(1,2))
  have ps: "reviewed_file_paths st =
      [''reviewed_docs/reviewed_AoA_Acme.docx'',
       ''reviewed_docs/reviewed_Board_Resolution_Acme.docx'']"
    by (simp add: process_files_paths [OF st] prepare_Inr(3) [OF st0] assms(1,2))
  show ?thesis
    unfolding t final_report_def Let_def len miss ai ps
    by (simp add: summary_head_def str_nat_digits str_nat_Suc_Suc_0 tag_issue_def
        analysis_AoA_Acme analysis_Board_Resolution_Acme)
qed

section \<open>The classifier: priority order\<close>

text \<open>
  Claim C1. For every file name the classifier returns the analysis fixed by the first
  matching row of the priority table, the tests being substring tests on the lower-cased
  name: \<open>articles\<close> or \<open>aoa\<close> gives Articles of Association with exactly the one
  High-severity jurisdiction issue; otherwise \<open>board\<close> together with \<open>resolution\<close> gives
  Board Resolution with exactly one Medium-severity issue; otherwise \<open>memo\<close> or \<open>moa\<close>
  gives Memorandum of Association, \<open>ubo\<close> gives UBO Declaration Form and \<open>register\<close>
  gives Register of Members and Directors, each without issues; otherwise the result is
  General Document with exactly one Low-severity issue. A name that contains a trigger of
  the first row written in any case is classified by that row.
\<close>

theorem classifier_priority_order:
  "simulate_llm_analysis doc_name =
     (let n = py_lower doc_name
      in if sublist ''articles'' n \<or> sublist ''aoa'' n then
           \<lparr>doc_type = ''Articles of Association'',
            issues = [\<lparr>section_name = ''Jurisdiction Clause (Simulated)'',
                 issue = ''Jurisdiction clause does not explicitly specify '' @ [CHR 0x27] @
                         ''ADGM Courts'' @ [CHR 0x27] @ ''.'',
                 severity = ''High'',
                 suggestion = ''Update the jurisdiction clause to '' @ [CHR 0x27] @
                         ''ADGM Courts'' @ [CHR 0x27] @
                         '' to comply with ADGM regulations.''\<rparr>]\<rparr>
         else if sublist ''board'' n \<and> sublist ''resolution'' n then
           \<lparr>doc_type = ''Board Resolution'',
            issues = [\<lparr>section_name = ''Signatory Section (Simulated)'',
                 issue = ''Missing date on the signatory page.'',
                 severity = ''Medium'',
                 suggestion = ''Ensure all signatory fields, including the date, are properly filled out.''\<rparr>]\<rparr>
         else if sublist ''memo'' n \<or> sublist ''moa'' n then
           \<lparr>doc_type = ''Memorandum of Association'', issues = []\<rparr>
         else if sublist ''ubo'' n then
           \<lparr>doc_type = ''UBO Declaration Form'', issues = []\<rparr>
         else if sublist ''register'' n then
           \<lparr>doc_type = ''Register of Members and Directors'', issues = []\<rparr>
         else
           \<lparr>doc_type = ''General Document'',
            issues = [\<lparr>section_name = ''General Compliance (Simulated)'',
                 issue = ''Document format does not appear to match standard ADGM templates.'',
                 severity = ''Low'',
                 suggestion = ''Cross-reference with the official ADGM templates to ensure full compliance and formatting.''\<rparr>]\<rparr>) \<and>
   (sublist k doc_name \<and> (py_lower k = ''articles'' \<or> py_lower k = ''aoa'') \<longrightarrow>
      doc_type (simulate_llm_analysis doc_name) = ''Articles of Association'' \<and>
      map severity (issues (simulate_llm_analysis doc_name)) = [''High''])"
proof -
  have any_case: "sublist (py_lower k) (py_lower doc_name)" if "sublist k doc_name"
    using that by (rule py_lower_sublist)
  show ?thesis
    using any_case by (auto simp: simulate_llm_analysis_def py_in_sublist Let_def)
qed

theorem classifier_priority_order_witness:
  "sublist ''AoA'' ''AoA_Acme.docx'' \<and> py_lower ''AoA'' = ''aoa'' \<and>
   doc_type (simulate_llm_analysis ''AoA_Acme.docx'') = ''Articles of Association'' \<and>
   map severity (issues (simulate_llm_analysis ''AoA_Acme.docx'')) = [''High''] \<and>
   simulate_llm_analysis ''ARTICLES-MEMO-UBO.docx'' = simulate_llm_analysis ''AoA_Acme.docx'' \<and>
   doc_type (simulate_llm_analysis ''randomfile.docx'') = ''General Document'' \<and>
   map severity (issues (simulate_llm_analysis ''randomfile.docx'')) = [''Low'']"
proof -
  have k: "py_lower ''AoA'' = ''aoa''"
    by code_simp
  have s: "sublist ''AoA'' ''AoA_Acme.docx''"
    by (simp add: py_in_sublist [symmetric])
  show ?thesis
    using k s
      classifier_priority_order [of "''AoA_Acme.docx''" "''AoA''"]
      classifier_priority_order [of "''randomfile.docx''" "''AoA''"]
      classifier_priority_order [of "''ARTICLES-MEMO-UBO.docx''" "''AoA''"]
    by (simp add: lower_AoA_Acme lower_randomfile lower_ARTICLES_MEMO_UBO
          py_in_sublist [symmetric] Let_def)
qed

section \<open>The classifier: shape of the result\<close>

text \<open>
  Claim C9. For every file name the returned analysis has at most one issue, and its
  document type is one of the six final types; the initial value \<open>Unknown\<close> is never
  returned.
\<close>

theorem classifier_result_shape:
  "length (issues (simulate_llm_analysis doc_name)) \<le> 1 \<and>
   doc_type (simulate_llm_analysis doc_name) \<in>
     {''Articles of Association'', ''Board Resolution'', ''Memorandum of Association'',
      ''UBO Declaration Form'', ''Register of Members and Directors'', ''General Document''} \<and>
   doc_type (simulate_llm_analysis doc_name) \<noteq> ''Unknown''"
  by (simp add: simulate_llm_analysis_def Let_def)

theorem classifier_result_shape_witness:
  "length (issues (simulate_llm_analysis ''Register.docx'')) \<le> 1 \<and>
   doc_type (simulate_llm_analysis ''Register.docx'') \<noteq> ''Unknown''"
  using classifier_result_shape [of "''Register.docx''"] by simp

section \<open>The empty batch\<close>

text \<open>
  Claim C5. Called with an empty list of files, the batch operation raises the error that
  asks for at least one document. It does so before anything else: there is no summary and
  no report, and the file system is left as it was, so no output directory is created and
  no reviewed document is written.
\<close>

theorem empty_batch_rejected:
  "analyze_documents [] w = (Inl (GrError ''Please upload at least one document.''), w)"
  by (simp add: analyze_documents_def)

theorem empty_batch_rejected_witness:
  "analyze_documents [] \<lparr>resolve = (\<lambda>p. p), directories = {}, contents = Map.empty, unwritable = {}\<rparr> =
     (Inl (GrError ''Please upload at least one document.''),
      \<lparr>resolve = (\<lambda>p. p), directories = {}, contents = Map.empty, unwritable = {}\<rparr>)"
  using empty_batch_rejected [of "\<lparr>resolve = (\<lambda>p. p), directories = {}, contents = Map.empty, unwritable = {}\<rparr>"] by simp

section \<open>The batch report\<close>

text \<open>
  Claim C4. The report that a batch returns has the fixed \<open>process\<close> string, the number
  of files as \<open>documents_uploaded\<close> and 7 as \<open>required_documents\<close>. Its
  \<open>missing_document\<close> is the label of the first category, in the declared order of the
  seven labels, whose flag is false in the checklist that the loop has built; this is the
  first label whose simplified key occurs in no lower-cased base name, and it is \<open>None\<close>
  when there is no such label. Its \<open>issues_found\<close> is the concatenation, in the order of
  the files, of the issues of each file, every issue carrying the base name of its file. A
  batch that returns is not empty.
\<close>

theorem batch_report_fields:
  assumes "analyze_documents files w = (Inr (summary, report, paths), w')"
  shows "files \<noteq> [] \<and>
     process report = ''Company Incorporation'' \<and>
     documents_uploaded report = length files \<and>
     required_documents report = 7 \<and>
     map fst (foldl (\<lambda>c f. update_checklist (basename (name f)) c) incorporation_checklist files) =
       [''Articles of Association (AoA)'', ''Memorandum of Association (MoA/MoU)'',
        ''Board Resolution Templates'', ''Shareholder Resolution Templates'',
        ''Incorporation Application Form'', ''UBO Declaration Form'',
        ''Register of Members and Directors''] \<and>
     missing_document report =
       (case find (\<lambda>(label, satisfied). \<not> satisfied)
               (foldl (\<lambda>c f. update_checklist (basename (name f)) c)
                  incorporation_checklist files) of
          Some (label, _) \<Rightarrow> label
        | None \<Rightarrow> ''None'') \<and>
     missing_document report =
       (case filter (\<lambda>(label, key). \<not> (\<exists>f \<in> set files.
                       sublist key (py_lower (basename (name f)))))
               [(''Articles of Association (AoA)'', ''articles of association''),
                (''Memorandum of Association (MoA/MoU)'', ''memorandum of association''),
                (''Board Resolution Templates'', ''board resolution templates''),
                (''Shareholder Resolution Templates'', ''shareholder resolution templates''),
                (''Incorporation Application Form'', ''incorporation application form''),
                (''UBO Declaration Form'', ''ubo declaration form''),
                (''Register of Members and Directors'', ''register of members and directors'')] of
          (label, _) # _ \<Rightarrow> label
        | [] \<Rightarrow> ''None'') \<and>
     issues_found report =
       concat (map (\<lambda>f. map (tag_issue (basename (name f)))
                           (issues (simulate_llm_analysis (basename (name f))))) files) \<and>
     (\<forall>t \<in> set (issues_found report). \<exists>f \<in> set files.
        \<exists>i \<in> set (issues (simulate_llm_analysis (basename (name f)))).
          document t = basename (name f) \<and> section_name t = section_name i \<and>
          issue t = issue i \<and> severity t = severity i \<and> suggestion t = suggestion i)"
proof -
  let ?final = "foldl (\<lambda>c f. update_checklist (basename (name f)) c) incorporation_checklist files"
  let ?H = "\<lambda>key. \<exists>f \<in> set files. sublist key (py_lower (basename (name f)))"
  let ?lk = "[(''Articles of Association (AoA)'', ''articles of association''),
                (''Memorandum of Association (MoA/MoU)'', ''memorandum of association''),
                (''Board Resolution Templates'', ''board resolution templates''),
                (''Shareholder Resolution Templates'', ''shareholder resolution templates''),
                (''Incorporation Application Form'', ''incorporation application form''),
                (''UBO Declaration Form'', ''ubo declaration form''),
                (''Register of Members and Directors'', ''register of members and directors'')]"
  from assms obtain st0 st where ne: "files \<noteq> []" and st0: "prepare w = Inr st0"
    and st: "process_files files st0 = Inr st"
    and rep: "final_report files st = (summary, report, paths)"
    by (rule analyze_documents_InrD)
  note cl = returned_checklist [OF st0 st]
  note f = final_report_fields [OF rep]
  have explicit: "?final = map (\<lambda>(l, k). (l, ?H k)) ?lk"
    by (simp only: final_checklist_explicit) simp
  have keys: "map fst ?final =
       [''Articles of Association (AoA)'', ''Memorandum of Association (MoA/MoU)'',
        ''Board Resolution Templates'', ''Shareholder Resolution Templates'',
        ''Incorporation Application Form'', ''UBO Declaration Form'',
        ''Register of Members and Directors'']"
    by (simp only: final_checklist_explicit) simp
  have req: "required_documents report = 7"
    by (simp only: f(3) cl length_final_checklist)
  have m0: "missing_document report =
       (case map fst (filter (\<lambda>(doc, found). \<not> found) ?final) of m # _ \<Rightarrow> m | [] \<Rightarrow> ''None'')"
    by (simp only: f(4) cl)
  have m1: "missing_document report =
       (case find (\<lambda>(label, satisfied). \<not> satisfied) ?final of
          Some (label, _) \<Rightarrow> label | None \<Rightarrow> ''None'')"
    by (simp only: m0 first_missing)
  have m2: "missing_document report =
       (case filter (\<lambda>(label, key). \<not> ?H key) ?lk of (label, _) # _ \<Rightarrow> label | [] \<Rightarrow> ''None'')"
    by (simp only: m0 explicit missing_docs_by_key)
  have iss: "issues_found report =
       concat (map (\<lambda>f. map (tag_issue (basename (name f)))
                           (issues (simulate_llm_analysis (basename (name f))))) files)"
    by (simp add: f(5) process_files_all_issues [OF st] prepare_Inr(2) [OF st0])
  have tagged: "\<forall>t \<in> set (issues_found report). \<exists>f \<in> set files.
        \<exists>i \<in> set (issues (simulate_llm_analysis (basename (name f)))).
          document t = basename (name f) \<and> section_name t = section_name i \<and>
          issue t = issue i \<and> severity t = severity i \<and> suggestion t = suggestion i"
    unfolding iss by (auto simp: tag_issue_def)
  show ?thesis
    apply (intro conjI)
            apply (rule ne)
           apply (rule f(1))
          apply (rule f(2))
         apply (rule req)
        apply (rule keys)
       apply (rule m1)
      apply (rule m2)
     apply (rule iss)
    apply (rule tagged)
    done
qed

theorem batch_report_fields_witness:
  "\<exists>summary report paths w'.
      analyze_documents [\<lparr>name = ''/tmp/gradio/randomfile.docx''\<rparr>]
        \<lparr>resolve = (\<lambda>p. if prefix ''/'' p then p else ''/app/'' @ p),
         directories = {''/app'', ''/tmp/gradio''}, contents = Map.empty, unwritable = {}\<rparr> =
        (Inr (summary, report, paths), w') \<and>
      process report = ''Company Incorporation'' \<and>
      documents_uploaded report = 1 \<and>
      required_documents report = 7 \<and>
      missing_document report = ''Articles of Association (AoA)'' \<and>
      map severity (issues_found report) = [''Low''] \<and>
      map document (issues_found report) = [''randomfile.docx'']"
proof -
  let ?files = "[\<lparr>name = ''/tmp/gradio/randomfile.docx''\<rparr>]"
  let ?w = "\<lparr>resolve = (\<lambda>p. if prefix ''/'' p then p else ''/app/'' @ p),
         directories = {''/app'', ''/tmp/gradio''}, contents = Map.empty, unwritable = {}\<rparr>"
  have base: "basename ''/tmp/gradio/randomfile.docx'' = ''randomfile.docx''"
    by (simp add: basename_def)
  have "\<exists>t w'. analyze_documents ?files ?w = (Inr t, w')"
    by (rule batch_returns) (simp_all add: base path_exists_def open_document_def)
  then obtain summary report paths w' where
    res: "analyze_documents ?files ?w = (Inr (summary, report, paths), w')"
    by (metis prod_cases3)
  note T = batch_report_fields [OF res]
  have p: "process report = ''Company Incorporation''"
    using T by (elim conjE)
  have n: "documents_uploaded report = 1"
    using T by simp
  have r: "required_documents report = 7"
    using T by (elim conjE)
  from T have m: "missing_document report =
       (case filter (\<lambda>(label, key). \<not> (\<exists>f \<in> set ?files.
                       sublist key (py_lower (basename (name f)))))
               [(''Articles of Association (AoA)'', ''articles of association''),
                (''Memorandum of Association (MoA/MoU)'', ''memorandum of association''),
                (''Board Resolution Templates'', ''board resolution templates''),
                (''Shareholder Resolution Templates'', ''shareholder resolution templates''),
                (''Incorporation Application Form'', ''incorporation application form''),
                (''UBO Declaration Form'', ''ubo declaration form''),
                (''Register of Members and Directors'', ''register of members and directors'')] of
          (label, _) # _ \<Rightarrow> label
        | [] \<Rightarrow> ''None'')"
    by (elim conjE)
  from T have i: "issues_found report =
       concat (map (\<lambda>f. map (tag_issue (basename (name f)))
                           (issues (simulate_llm_analysis (basename (name f))))) ?files)"
    by (elim conjE)
  have m': "missing_document report = ''Articles of Association (AoA)''"
    unfolding m by (simp add: base lower_randomfile py_in_sublist [symmetric])
  have i': "map severity (issues_found report) = [''Low'']"
       "map document (issues_found report) = [''randomfile.docx'']"
    unfolding i by (simp_all add: base analysis_randomfile tag_issue_def)
  show ?thesis
    apply (intro exI conjI)
          apply (rule res)
         apply (rule p)
        apply (rule n)
       apply (rule r)
      apply (rule m')
     apply (rule i'(1))
    apply (rule i'(2))
    done
qed

section \<open>Checklist reconciliation\<close>

text \<open>
  Claim C3. The checklist that the loop builds from the files lists the seven categories
  in their declared order, and the flag of a category is true exactly when its simplified
  key occurs in the base name of at least one uploaded file without regard to the case of
  the letters, which is to say that it occurs in the lower-cased base name. The simplified
  keys are the labels before any parenthesis, stripped and lower-cased:
  \<open>articles of association\<close>, \<open>memorandum of association\<close>,
  \<open>board resolution templates\<close>, \<open>shareholder resolution templates\<close>,
  \<open>incorporation application form\<close>, \<open>ubo declaration form\<close> and
  \<open>register of members and directors\<close>. Every round that completes applies one step of
  this checklist, and a loop that completes ends with it. The checklist depends only on the
  set of uploaded base names, so it is the same for every permutation of the files. One
  file name can satisfy more than one category, and a category that is marked stays marked
  through every later step.
\<close>

theorem checklist_reconciliation:
  "(let fold_case = map (\<lambda>c. if 65 \<le> (of_char c :: nat) \<and> (of_char c :: nat) \<le> 90
                               then char_of (of_char c + 32 :: nat) else c);
        occurs = (\<lambda>key. \<exists>f \<in> set files. \<exists>k. sublist k (basename (name f)) \<and> fold_case k = key);
        lowered = (\<lambda>key. \<exists>f \<in> set files. sublist key (py_lower (basename (name f))));
        built = (\<lambda>fs. foldl (\<lambda>c f. update_checklist (basename (name f)) c)
                          incorporation_checklist fs)
    in built files =
         [(''Articles of Association (AoA)'', occurs ''articles of association''),
          (''Memorandum of Association (MoA/MoU)'', occurs ''memorandum of association''),
          (''Board Resolution Templates'', occurs ''board resolution templates''),
          (''Shareholder Resolution Templates'', occurs ''shareholder resolution templates''),
          (''Incorporation Application Form'', occurs ''incorporation application form''),
          (''UBO Declaration Form'', occurs ''ubo declaration form''),
          (''Register of Members and Directors'', occurs ''register of members and directors'')] \<and>
       built files =
         [(''Articles of Association (AoA)'', lowered ''articles of association''),
          (''Memorandum of Association (MoA/MoU)'', lowered ''memorandum of association''),
          (''Board Resolution Templates'', lowered ''board resolution templates''),
          (''Shareholder Resolution Templates'', lowered ''shareholder resolution templates''),
          (''Incorporation Application Form'', lowered ''incorporation application form''),
          (''UBO Declaration Form'', lowered ''ubo declaration form''),
          (''Register of Members and Directors'', lowered ''register of members and directors'')] \<and>
       map (\<lambda>(label, flag). simplified_key label) incorporation_checklist =
         [''articles of association'', ''memorandum of association'',
          ''board resolution templates'', ''shareholder resolution templates'',
          ''incorporation application form'', ''ubo declaration form'',
          ''register of members and directors''] \<and>
       (process_file st f = Inr st' \<longrightarrow>
          checklist st' = update_checklist (basename (name f)) (checklist st)) \<and>
       (prepare w = Inr st0 \<and> process_files files st0 = Inr st1 \<longrightarrow>
          checklist st1 = built files) \<and>
       (set (map (\<lambda>f. basename (name f)) files') = set (map (\<lambda>f. basename (name f)) files) \<longrightarrow>
          built files' = built files) \<and>
       (mset files' = mset files \<longrightarrow> built files' = built files) \<and>
       (\<exists>doc_name. 2 \<le> length (filter snd (update_checklist doc_name incorporation_checklist))) \<and>
       ((label, True) \<in> set cl \<longrightarrow>
          (label, True) \<in> set (update_checklist d cl) \<and>
          (label, True) \<in> set (foldl (\<lambda>c f. update_checklist (basename (name f)) c) cl files)))"
proof -
  let ?built = "\<lambda>fs. foldl (\<lambda>c f. update_checklist (basename (name f)) c)
                          incorporation_checklist fs"
  note lowered = final_checklist_explicit [of files]
  note occurs = lowered [unfolded occurs_any_case [OF keys_ascii(1)]
      occurs_any_case [OF keys_ascii(2)] occurs_any_case [OF keys_ascii(3)]
      occurs_any_case [OF keys_ascii(4)] occurs_any_case [OF keys_ascii(5)]
      occurs_any_case [OF keys_ascii(6)] occurs_any_case [OF keys_ascii(7)]]
  have keys: "map (\<lambda>(label, flag). simplified_key label) incorporation_checklist =
         [''articles of association'', ''memorandum of association'',
          ''board resolution templates'', ''shareholder resolution templates'',
          ''incorporation application form'', ''ubo declaration form'',
          ''register of members and directors'']"
    by (simp add: incorporation_checklist_def simplified_key_values)
  have round: "checklist st' = update_checklist (basename (name f)) (checklist st)"
    if "process_file st f = Inr st'"
    using that by (rule process_file_Inr(1))
  have run: "checklist st1 = ?built files"
    if "prepare w = Inr st0 \<and> process_files files st0 = Inr st1"
    using returned_checklist [of w st0 files st1] that by simp
  have by_set: "?built files' = ?built files"
    if eq: "set (map (\<lambda>f. basename (name f)) files') = set (map (\<lambda>f. basename (name f)) files)"
  proof -
    have aux: "(\<exists>f \<in> set fs. sublist key (py_lower (basename (name f)))) =
               (\<exists>d \<in> set (map (\<lambda>f. basename (name f)) fs). sublist key (py_lower d))"
      for fs :: "upload list" and key by auto
    show ?thesis
      by (simp only: final_checklist aux eq)
  qed
  have by_perm: "?built files' = ?built files" if "mset files' = mset files"
  proof -
    from that have "set files' = set files" by (rule mset_eq_setD)
    then show ?thesis by (intro by_set) simp
  qed
  have multi: "\<exists>doc_name. 2 \<le> length (filter snd (update_checklist doc_name incorporation_checklist))"
    by (rule exI [of _ "''Articles of Association - Memorandum of Association.docx''"])
       (simp add: two_categories_one_name)
  have mono: "(label, True) \<in> set (update_checklist d cl) \<and>
          (label, True) \<in> set (foldl (\<lambda>c f. update_checklist (basename (name f)) c) cl files)"
    if "(label, True) \<in> set cl"
    using that by (simp add: update_checklist_keeps_True foldl_update_checklist_keeps_True)
  show ?thesis
    unfolding Let_def
    apply (intro conjI impI)
            apply (rule occurs)
           apply (rule lowered)
          apply (rule keys)
         apply (erule round)
        apply (erule run)
       apply (erule by_set)
      apply (erule by_perm)
     apply (rule multi)
     apply (erule mono [THEN conjunct1])
    apply (erule mono [THEN conjunct2])
    done
qed

theorem checklist_reconciliation_witness:
  "sublist ''ARTICLES OF ASSOCIATION''
     (basename (name \<lparr>name = ''/tmp/a/ARTICLES OF ASSOCIATION (signed).docx''\<rparr>)) \<and>
   map (\<lambda>c. if 65 \<le> (of_char c :: nat) \<and> (of_char c :: nat) \<le> 90
             then char_of (of_char c + 32 :: nat) else c) ''ARTICLES OF ASSOCIATION'' =
     ''articles of association'' \<and>
   foldl (\<lambda>c f. update_checklist (basename (name f)) c) incorporation_checklist
     [\<lparr>name = ''/tmp/a/ARTICLES OF ASSOCIATION (signed).docx''\<rparr>,
      \<lparr>name = ''/tmp/b/Ubo Declaration Form.docx''\<rparr>] =
     [(''Articles of Association (AoA)'', True),
      (''Memorandum of Association (MoA/MoU)'', False),
      (''Board Resolution Templates'', False),
      (''Shareholder Resolution Templates'', False),
      (''Incorporation Application Form'', False),
      (''UBO Declaration Form'', True),
      (''Register of Members and Directors'', False)] \<and>
   mset [\<lparr>name = ''/tmp/b/Ubo Declaration Form.docx''\<rparr>,
         \<lparr>name = ''/tmp/a/ARTICLES OF ASSOCIATION (signed).docx''\<rparr>] =
   mset [\<lparr>name = ''/tmp/a/ARTICLES OF ASSOCIATION (signed).docx''\<rparr>,
         \<lparr>name = ''/tmp/b/Ubo Declaration Form.docx''\<rparr>] \<and>
   foldl (\<lambda>c f. update_checklist (basename (name f)) c) incorporation_checklist
     [\<lparr>name = ''/tmp/b/Ubo Declaration Form.docx''\<rparr>,
      \<lparr>name = ''/tmp/a/ARTICLES OF ASSOCIATION (signed).docx''\<rparr>] =
   foldl (\<lambda>c f. update_checklist (basename (name f)) c) incorporation_checklist
     [\<lparr>name = ''/tmp/a/ARTICLES OF ASSOCIATION (signed).docx''\<rparr>,
      \<lparr>name = ''/tmp/b/Ubo Declaration Form.docx''\<rparr>] \<and>
   (\<exists>st0 st1.
      prepare \<lparr>resolve = (\<lambda>p. if prefix ''/'' p then p else ''/app/'' @ p),
               directories = {''/app'', ''/tmp/a'', ''/tmp/b''}, contents = Map.empty,
               unwritable = {}\<rparr> = Inr st0 \<and>
      process_files
        [\<lparr>name = ''/tmp/a/ARTICLES OF ASSOCIATION (signed).docx''\<rparr>,
         \<lparr>name = ''/tmp/b/Ubo Declaration Form.docx''\<rparr>] st0 = Inr st1 \<and>
      checklist st1 =
        [(''Articles of Association (AoA)'', True),
         (''Memorandum of Association (MoA/MoU)'', False),
         (''Board Resolution Templates'', False),
         (''Shareholder Resolution Templates'', False),
         (''Incorporation Application Form'', False),
         (''UBO Declaration Form'', True),
         (''Register of Members and Directors'', False)]) \<and>
   (''UBO Declaration Form'', True) \<in>
     set (update_checklist ''randomfile.docx''
            (foldl (\<lambda>c f. update_checklist (basename (name f)) c) incorporation_checklist
               [\<lparr>name = ''/tmp/a/ARTICLES OF ASSOCIATION (signed).docx''\<rparr>,
                \<lparr>name = ''/tmp/b/Ubo Declaration Form.docx''\<rparr>]))"
proof -
  let ?A = "\<lparr>name = ''/tmp/a/ARTICLES OF ASSOCIATION (signed).docx''\<rparr>"
  let ?U = "\<lparr>name = ''/tmp/b/Ubo Declaration Form.docx''\<rparr>"
  let ?w = "\<lparr>resolve = (\<lambda>p. if prefix ''/'' p then p else ''/app/'' @ p),
               directories = {''/app'', ''/tmp/a'', ''/tmp/b''}, contents = Map.empty,
               unwritable = {}\<rparr>"
  let ?built = "\<lambda>fs. foldl (\<lambda>c f. update_checklist (basename (name f)) c)
                          incorporation_checklist fs"
  let ?result = "[(''Articles of Association (AoA)'', True),
      (''Memorandum of Association (MoA/MoU)'', False),
      (''Board Resolution Templates'', False),
      (''Shareholder Resolution Templates'', False),
      (''Incorporation Application Form'', False),
      (''UBO Declaration Form'', True),
      (''Register of Members and Directors'', False)]"
  have bA: "basename ''/tmp/a/ARTICLES OF ASSOCIATION (signed).docx'' =
            ''ARTICLES OF ASSOCIATION (signed).docx''"
    by (simp add: basename_def)
  have bU: "basename ''/tmp/b/Ubo Declaration Form.docx'' = ''Ubo Declaration Form.docx''"
    by (simp add: basename_def)
  have occ: "sublist ''ARTICLES OF ASSOCIATION'' (basename (name ?A))"
    by (simp add: bA py_in_sublist [symmetric])
  have fold: "map (\<lambda>c. if 65 \<le> (of_char c :: nat) \<and> (of_char c :: nat) \<le> 90
             then char_of (of_char c + 32 :: nat) else c) ''ARTICLES OF ASSOCIATION'' =
     ''articles of association''"
    by code_simp
  have perm: "mset [?U, ?A] = mset [?A, ?U]"
    by (simp add: add_mset_commute)
  have "\<exists>t w'. analyze_documents [?A, ?U] ?w = (Inr t, w')"
    by (rule batch_returns) (simp_all add: bA bU path_exists_def open_document_def)
  then obtain st0 st1 where st0: "prepare ?w = Inr st0"
    and st1: "process_files [?A, ?U] st0 = Inr st1"
    unfolding analyze_documents_Inr_iff by blast
  note T = checklist_reconciliation [where files = "[?A, ?U]" and files' = "[?U, ?A]"
      and w = ?w and ?st0.0 = st0 and ?st1.0 = st1 and label = "''UBO Declaration Form''"
      and cl = "?built [?A, ?U]" and d = "''randomfile.docx''", unfolded Let_def]
  note T2 = T [THEN conjunct2, THEN conjunct1]
  note T5 = T [THEN conjunct2, THEN conjunct2, THEN conjunct2, THEN conjunct2, THEN conjunct1]
  note T7 = T [THEN conjunct2, THEN conjunct2, THEN conjunct2, THEN conjunct2, THEN conjunct2,
      THEN conjunct2, THEN conjunct1]
  note T9 = T [THEN conjunct2, THEN conjunct2, THEN conjunct2, THEN conjunct2, THEN conjunct2,
      THEN conjunct2, THEN conjunct2, THEN conjunct2]
  have built: "?built [?A, ?U] = ?result"
    by (subst T2)
       (simp add: bA bU lower_ARTICLES_signed lower_Ubo_Declaration_Form
          py_in_sublist [symmetric])
  note rev = T7 [THEN mp, OF perm]
  note run = T5 [THEN mp, OF conjI [OF st0 st1]]
  have marked: "(''UBO Declaration Form'', True) \<in> set (?built [?A, ?U])"
    by (subst built) simp
  note kept = T9 [THEN mp, OF marked, THEN conjunct1]
  show ?thesis
    apply (intro conjI exI)
            apply (rule occ)
           apply (rule fold)
          apply (rule built)
         apply (rule perm)
        apply (rule rev)
       apply (rule st0)
      apply (rule st1)
     apply (simp only: run built)
    apply (rule kept)
    done
qed

section \<open>The content of a reviewed document\<close>



section \<open>Recovery from a file that does not open\<close>




section \<open>The scenario with two files: the claim\<close>

text \<open>
  Claim C2, as amended. Let the batch be two files with the base names \<open>AoA_Acme.docx\<close>
  and \<open>Board_Resolution_Acme.docx\<close>, in this order. When the call returns, the summary
  reports \<open>2 out of 7\<close> and names \<open>Articles of Association (AoA)\<close> as the missing
  document, which is also the \<open>missing_document\<close> of the report: neither name contains
  a whole simplified key, so no category is marked. The report has two issues, the first of
  severity High and the second of severity Medium, and two output paths are returned. The
  output file of the second file holds a document that ends with the comment section of
  its issue, and so does the output file of the first file when the two output paths denote
  different files. The call returns when the output directory exists or can be made, the
  two output paths can be written and name no directory and no input file, and each of the
  two files either does not open or has the two styles of the comment section.
\<close>

theorem scenario_two_files:
  "basename (name f1) = ''AoA_Acme.docx'' \<and>
   basename (name f2) = ''Board_Resolution_Acme.docx'' \<longrightarrow>
     (analyze_documents [f1, f2] w = (Inr (summary, report, paths), w') \<longrightarrow>
        (summary, report, paths) =
          (''It appears you'' @ [CHR 0x27] @
      ''re trying to incorporate a company in ADGM. You have uploaded 2 out of 7 required documents.'' @
      [CHR 0x0A, CHR 0x0A] @ ''The missing document appears to be: '' @ [CHR 0x27] @
      ''Articles of Association (AoA)'' @ [CHR 0x27] @ ''.'',
      \<lparr>process = ''Company Incorporation'',
       documents_uploaded = 2,
       required_documents = 7,
       missing_document = ''Articles of Association (AoA)'',
       issues_found =
         [\<lparr>section_name = ''Jurisdiction Clause (Simulated)'',
           issue = ''Jurisdiction clause does not explicitly specify '' @ [CHR 0x27] @
                   ''ADGM Courts'' @ [CHR 0x27] @ ''.'',
           severity = ''High'',
           suggestion = ''Update the jurisdiction clause to '' @ [CHR 0x27] @
                   ''ADGM Courts'' @ [CHR 0x27] @ '' to comply with ADGM regulations.'',
           document = ''AoA_Acme.docx''\<rparr>,
          \<lparr>section_name = ''Signatory Section (Simulated)'',
           issue = ''Missing date on the signatory page.'',
           severity = ''Medium'',
           suggestion = ''Ensure all signatory fields, including the date, are properly filled out.'',
           document = ''Board_Resolution_Acme.docx''\<rparr>]\<rparr>,
      [''reviewed_docs/reviewed_AoA_Acme.docx'',
       ''reviewed_docs/reviewed_Board_Resolution_Acme.docx'']) \<and>
        sublist ''2 out of 7'' summary \<and>
        length (issues_found report) = 2 \<and>
        map severity (issues_found report) = [''High'', ''Medium''] \<and>
        length paths = 2 \<and>
        (\<exists>d. contents w' (resolve w ''reviewed_docs/reviewed_Board_Resolution_Acme.docx'') =
                Some (Docx d) \<and>
              suffix
               [SectionBreak,
                Para ''--- AI Analysis & Comments ---'' (Some ''Heading 2''),
                Para (''COMMENT: In section '' @ [CHR 0x27] @ ''Signatory Section (Simulated)'' @
                      [CHR 0x27] @ '', an issue was found: '' @ [CHR 0x27] @
                      ''Missing date on the signatory page.'' @ [CHR 0x27] @
                      '' (Severity: Medium).'')
                     (Some ''Intense Quote''),
                Para ''SUGGESTION: Ensure all signatory fields, including the date, are properly filled out.'' None,
                Para [] None]
               (blocks d)) \<and>
        (resolve w ''reviewed_docs/reviewed_AoA_Acme.docx'' \<noteq>
         resolve w ''reviewed_docs/reviewed_Board_Resolution_Acme.docx'' \<longrightarrow>
           (\<exists>d. contents w' (resolve w ''reviewed_docs/reviewed_AoA_Acme.docx'') =
                   Some (Docx d) \<and>
                 suffix
                  [SectionBreak,
                Para ''--- AI Analysis & Comments ---'' (Some ''Heading 2''),
                Para (''COMMENT: In section '' @ [CHR 0x27] @ ''Jurisdiction Clause (Simulated)'' @
                      [CHR 0x27] @ '', an issue was found: '' @ [CHR 0x27] @
                      ''Jurisdiction clause does not explicitly specify '' @ [CHR 0x27] @
                      ''ADGM Courts'' @ [CHR 0x27] @ ''.'' @ [CHR 0x27] @ '' (Severity: High).'')
                     (Some ''Intense Quote''),
                Para (''SUGGESTION: Update the jurisdiction clause to '' @ [CHR 0x27] @
                      ''ADGM Courts'' @ [CHR 0x27] @ '' to comply with ADGM regulations.'') None,
                Para [] None]
                  (blocks d)))) \<and>
     ((resolve w ''reviewed_docs'' \<in> directories w \<or>
       \<not> path_exists w ''reviewed_docs'' \<and> resolve w ''reviewed_docs'' \<notin> unwritable w) \<and>
      (\<forall>p \<in> {''reviewed_docs/reviewed_AoA_Acme.docx'',
                ''reviewed_docs/reviewed_Board_Resolution_Acme.docx''}.
         resolve w p \<notin> insert (resolve w ''reviewed_docs'') (directories w) \<and>
         resolve w p \<notin> unwritable w \<and>
         resolve w (name f1) \<noteq> resolve w p \<and> resolve w (name f2) \<noteq> resolve w p) \<and>
      (\<forall>g \<in> {f1, f2}.
         case open_document w (name g) of
           Some doc \<Rightarrow> ''Heading 2'' \<in> styles doc \<and> ''Intense Quote'' \<in> styles doc
         | None \<Rightarrow> True) \<longrightarrow>
        (\<exists>t w'. analyze_documents [f1, f2] w = (Inr t, w')))"
proof (intro impI conjI; (elim conjE)?)
  assume b1: "basename (name f1) = ''AoA_Acme.docx''"
    and b2: "basename (name f2) = ''Board_Resolution_Acme.docx''"
  {
    assume res: "analyze_documents [f1, f2] w = (Inr (summary, report, paths), w')"
    note t = scenario_triple [OF b1 b2 res]
    show "(summary, report, paths) =
          (''It appears you'' @ [CHR 0x27] @
      ''re trying to incorporate a company in ADGM. You have uploaded 2 out of 7 required documents.'' @
      [CHR 0x0A, CHR 0x0A] @ ''The missing document appears to be: '' @ [CHR 0x27] @
      ''Articles of Association (AoA)'' @ [CHR 0x27] @ ''.'',
      \<lparr>process = ''Company Incorporation'',
       documents_uploaded = 2,
       required_documents = 7,
       missing_document = ''Articles of Association (AoA)'',
       issues_found =
         [\<lparr>section_name = ''Jurisdiction Clause (Simulated)'',
           issue = ''Jurisdiction clause does not explicitly specify '' @ [CHR 0x27] @
                   ''ADGM Courts'' @ [CHR 0x27] @ ''.'',
           severity = ''High'',
           suggestion = ''Update the jurisdiction clause to '' @ [CHR 0x27] @
                   ''ADGM Courts'' @ [CHR 0x27] @ '' to comply with ADGM regulations.'',
           document = ''AoA_Acme.docx''\<rparr>,
          \<lparr>section_name = ''Signatory Section (Simulated)'',
           issue = ''Missing date on the signatory page.'',
           severity = ''Medium'',
           suggestion = ''Ensure all signatory fields, including the date, are properly filled out.'',
           document = ''Board_Resolution_Acme.docx''\<rparr>]\<rparr>,
      [''reviewed_docs/reviewed_AoA_Acme.docx'',
       ''reviewed_docs/reviewed_Board_Resolution_Acme.docx''])"
      by (rule t)
    from t show "sublist ''2 out of 7'' summary"
      by (simp add: sublist_def)
        (rule exI [of _ "''It appears you'' @ [CHR 0x27] @
           ''re trying to incorporate a company in ADGM. You have uploaded ''"], simp)
    from t show "length (issues_found report) = 2" by simp
    from t show "map severity (issues_found report) = [''High'', ''Medium'']" by simp
    from t show "length paths = 2" by simp
    from res obtain st0 st where st0: "prepare w = Inr st0"
      and st: "process_files [f1, f2] st0 = Inr st" and w': "w' = fs st"
      unfolding analyze_documents_Inr_iff by blast
    from st obtain s1 where s1: "process_file st0 f1 = Inr s1"
      and s2: "process_file s1 f2 = Inr st"
      unfolding process_files_Cons_Inr by auto
    note r0 = prepare_Inr(4) [OF st0]
    note r1 = process_file_Inr(4) [OF s1]
    from process_file_saved [OF s2]
    show "\<exists>d. contents w' (resolve w ''reviewed_docs/reviewed_Board_Resolution_Acme.docx'') =
                Some (Docx d) \<and>
              suffix
               [SectionBreak,
                Para ''--- AI Analysis & Comments ---'' (Some ''Heading 2''),
                Para (''COMMENT: In section '' @ [CHR 0x27] @ ''Signatory Section (Simulated)'' @
                      [CHR 0x27] @ '', an issue was found: '' @ [CHR 0x27] @
                      ''Missing date on the signatory page.'' @ [CHR 0x27] @
                      '' (Severity: Medium).'')
                     (Some ''Intense Quote''),
                Para ''SUGGESTION: Ensure all signatory fields, including the date, are properly filled out.'' None,
                Para [] None]
               (blocks d)"
      unfolding b2 w' r1 r0 analysis_Board_Resolution_Acme by simp
    {
      assume ne: "resolve w ''reviewed_docs/reviewed_AoA_Acme.docx'' \<noteq>
         resolve w ''reviewed_docs/reviewed_Board_Resolution_Acme.docx''"
      have keep: "contents (fs st) (resolve w ''reviewed_docs/reviewed_AoA_Acme.docx'') =
            contents (fs s1) (resolve w ''reviewed_docs/reviewed_AoA_Acme.docx'')"
        unfolding process_file_Inr(7) [OF s2] b2 r1 r0 using ne by simp
      from process_file_saved [OF s1]
      show "\<exists>d. contents w' (resolve w ''reviewed_docs/reviewed_AoA_Acme.docx'') =
                   Some (Docx d) \<and>
                 suffix
                  [SectionBreak,
                Para ''--- AI Analysis & Comments ---'' (Some ''Heading 2''),
                Para (''COMMENT: In section '' @ [CHR 0x27] @ ''Jurisdiction Clause (Simulated)'' @
                      [CHR 0x27] @ '', an issue was found: '' @ [CHR 0x27] @
                      ''Jurisdiction clause does not explicitly specify '' @ [CHR 0x27] @
                      ''ADGM Courts'' @ [CHR 0x27] @ ''.'' @ [CHR 0x27] @ '' (Severity: High).'')
                     (Some ''Intense Quote''),
                Para (''SUGGESTION: Update the jurisdiction clause to '' @ [CHR 0x27] @
                      ''ADGM Courts'' @ [CHR 0x27] @ '' to comply with ADGM regulations.'') None,
                Para [] None]
                  (blocks d)"
        unfolding b1 w' keep r0 analysis_AoA_Acme by simp
    }
  }
  {
    assume dir: "resolve w ''reviewed_docs'' \<in> directories w \<or>
       \<not> path_exists w ''reviewed_docs'' \<and> resolve w ''reviewed_docs'' \<notin> unwritable w"
      and out: "\<forall>p \<in> {''reviewed_docs/reviewed_AoA_Acme.docx'',
                ''reviewed_docs/reviewed_Board_Resolution_Acme.docx''}.
         resolve w p \<notin> insert (resolve w ''reviewed_docs'') (directories w) \<and>
         resolve w p \<notin> unwritable w \<and>
         resolve w (name f1) \<noteq> resolve w p \<and> resolve w (name f2) \<noteq> resolve w p"
      and opened: "\<forall>g \<in> {f1, f2}.
         case open_document w (name g) of
           Some doc \<Rightarrow> ''Heading 2'' \<in> styles doc \<and> ''Intense Quote'' \<in> styles doc
         | None \<Rightarrow> True"
    have x1: "xml_compatible ''AoA_Acme.docx''" and x2: "xml_compatible ''Board_Resolution_Acme.docx''"
      by (simp_all add: xml_compatible_def)
    show "\<exists>t w'. analyze_documents [f1, f2] w = (Inr t, w')"
    proof (rule batch_returns)
      show "[f1, f2] \<noteq> []" by simp
      show "resolve w ''reviewed_docs'' \<in> directories w \<or>
         \<not> path_exists w ''reviewed_docs'' \<and> resolve w ''reviewed_docs'' \<notin> unwritable w"
        by (rule dir)
      show "\<forall>f \<in> set [f1, f2].
           resolve w (''reviewed_docs/reviewed_'' @ basename (name f)) \<notin>
             insert (resolve w ''reviewed_docs'') (directories w) \<and>
           resolve w (''reviewed_docs/reviewed_'' @ basename (name f)) \<notin> unwritable w"
        using out by (simp add: b1 b2)
      show "\<forall>f \<in> set [f1, f2]. \<forall>g \<in> set [f1, f2].
           resolve w (name f) \<noteq> resolve w (''reviewed_docs/reviewed_'' @ basename (name g))"
        using out by (simp add: b1 b2)
      show "\<forall>f \<in> set [f1, f2].
           case open_document w (name f) of
             Some doc \<Rightarrow>
               issues (simulate_llm_analysis (basename (name f))) = [] \<or>
               ''Heading 2'' \<in> styles doc \<and> ''Intense Quote'' \<in> styles doc
           | None \<Rightarrow> xml_compatible (basename (name f))"
        using opened by (simp add: b1 b2 x1 x2 split: option.splits)
    qed
  }
qed

theorem scenario_two_files_witness:
  "\<exists>summary report paths w'.
     analyze_documents [\<lparr>name = ''AoA_Acme.docx''\<rparr>, \<lparr>name = ''Board_Resolution_Acme.docx''\<rparr>]
       \<lparr>resolve = (\<lambda>p. if prefix ''/'' p then p else ''/app/'' @ p),
        directories = {''/app''},
        contents = [''/app/AoA_Acme.docx'' \<mapsto>
                      Docx \<lparr>blocks = [Para ''Articles of Association of Acme'' None],
                            styles = {''Normal'', ''Heading 2'', ''Intense Quote''}\<rparr>,
                    ''/app/Board_Resolution_Acme.docx'' \<mapsto>
                      Docx \<lparr>blocks = [Para ''Resolved'' None],
                            styles = {''Normal'', ''Heading 2'', ''Intense Quote''}\<rparr>],
        unwritable = {}\<rparr> =
       (Inr (summary, report, paths), w') \<and>
     sublist ''2 out of 7'' summary \<and>
     missing_document report = ''Articles of Association (AoA)'' \<and>
     map severity (issues_found report) = [''High'', ''Medium''] \<and>
     paths = [''reviewed_docs/reviewed_AoA_Acme.docx'',
              ''reviewed_docs/reviewed_Board_Resolution_Acme.docx''] \<and>
     (\<exists>d. contents w' ''/app/reviewed_docs/reviewed_AoA_Acme.docx'' = Some (Docx d) \<and>
          suffix
            [SectionBreak,
                Para ''--- AI Analysis & Comments ---'' (Some ''Heading 2''),
                Para (''COMMENT: In section '' @ [CHR 0x27] @ ''Jurisdiction Clause (Simulated)'' @
                      [CHR 0x27] @ '', an issue was found: '' @ [CHR 0x27] @
                      ''Jurisdiction clause does not explicitly specify '' @ [CHR 0x27] @
                      ''ADGM Courts'' @ [CHR 0x27] @ ''.'' @ [CHR 0x27] @ '' (Severity: High).'')
                     (Some ''Intense Quote''),
                Para (''SUGGESTION: Update the jurisdiction clause to '' @ [CHR 0x27] @
                      ''ADGM Courts'' @ [CHR 0x27] @ '' to comply with ADGM regulations.'') None,
                Para [] None]
            (blocks d)) \<and>
     (\<exists>d. contents w' ''/app/reviewed_docs/reviewed_Board_Resolution_Acme.docx'' = Some (Docx d) \<and>
          suffix
            [SectionBreak,
                Para ''--- AI Analysis & Comments ---'' (Some ''Heading 2''),
                Para (''COMMENT: In section '' @ [CHR 0x27] @ ''Signatory Section (Simulated)'' @
                      [CHR 0x27] @ '', an issue was found: '' @ [CHR 0x27] @
                      ''Missing date on the signatory page.'' @ [CHR 0x27] @
                      '' (Severity: Medium).'')
                     (Some ''Intense Quote''),
                Para ''SUGGESTION: Ensure all signatory fields, including the date, are properly filled out.'' None,
                Para [] None]
            (blocks d))"
proof -
  let ?A = "\<lparr>name = ''AoA_Acme.docx''\<rparr>"
  let ?B = "\<lparr>name = ''Board_Resolution_Acme.docx''\<rparr>"
  let ?w = "\<lparr>resolve = (\<lambda>p. if prefix ''/'' p then p else ''/app/'' @ p),
        directories = {''/app''},
        contents = [''/app/AoA_Acme.docx'' \<mapsto>
                      Docx \<lparr>blocks = [Para ''Articles of Association of Acme'' None],
                            styles = {''Normal'', ''Heading 2'', ''Intense Quote''}\<rparr>,
                    ''/app/Board_Resolution_Acme.docx'' \<mapsto>
                      Docx \<lparr>blocks = [Para ''Resolved'' None],
                            styles = {''Normal'', ''Heading 2'', ''Intense Quote''}\<rparr>],
        unwritable = {}\<rparr>"
  have bases: "basename (name ?A) = ''AoA_Acme.docx'' \<and>
      basename (name ?B) = ''Board_Resolution_Acme.docx''"
    by (simp add: basename_def)
  have "\<exists>t w'. analyze_documents [?A, ?B] ?w = (Inr t, w')"
    by (rule scenario_two_files [where ?f1.0 = ?A and ?f2.0 = ?B and w = ?w, THEN mp, OF bases,
          THEN conjunct2, THEN mp])
      (simp add: path_exists_def open_document_def)
  then obtain summary report paths w' where
    res: "analyze_documents [?A, ?B] ?w = (Inr (summary, report, paths), w')"
    by (metis prod_cases3)
  note T = scenario_two_files [where ?f1.0 = ?A and ?f2.0 = ?B and w = ?w, THEN mp, OF bases,
      THEN conjunct1, THEN mp, OF res]
  have t: "(summary, report, paths) =
          (''It appears you'' @ [CHR 0x27] @
      ''re trying to incorporate a company in ADGM. You have uploaded 2 out of 7 required documents.'' @
      [CHR 0x0A, CHR 0x0A] @ ''The missing document appears to be: '' @ [CHR 0x27] @
      ''Articles of Association (AoA)'' @ [CHR 0x27] @ ''.'',
      \<lparr>process = ''Company Incorporation'',
       documents_uploaded = 2,
       required_documents = 7,
       missing_document = ''Articles of Association (AoA)'',
       issues_found =
         [\<lparr>section_name = ''Jurisdiction Clause (Simulated)'',
           issue = ''Jurisdiction clause does not explicitly specify '' @ [CHR 0x27] @
                   ''ADGM Courts'' @ [CHR 0x27] @ ''.'',
           severity = ''High'',
           suggestion = ''Update the jurisdiction clause to '' @ [CHR 0x27] @
                   ''ADGM Courts'' @ [CHR 0x27] @ '' to comply with ADGM regulations.'',
           document = ''AoA_Acme.docx''\<rparr>,
          \<lparr>section_name = ''Signatory Section (Simulated)'',
           issue = ''Missing date on the signatory page.'',
           severity = ''Medium'',
           suggestion = ''Ensure all signatory fields, including the date, are properly filled out.'',
           document = ''Board_Resolution_Acme.docx''\<rparr>]\<rparr>,
      [''reviewed_docs/reviewed_AoA_Acme.docx'',
       ''reviewed_docs/reviewed_Board_Resolution_Acme.docx''])"
    using T by (elim conjE)
  have two: "sublist ''2 out of 7'' summary"
    using T by (elim conjE)
  have sev: "map severity (issues_found report) = [''High'', ''Medium'']"
    using T by (elim conjE)
  from T have b: "\<exists>d. contents w' (resolve ?w ''reviewed_docs/reviewed_Board_Resolution_Acme.docx'') =
                Some (Docx d) \<and>
              suffix
               [SectionBreak,
                Para ''--- AI Analysis & Comments ---'' (Some ''Heading 2''),
                Para (''COMMENT: In section '' @ [CHR 0x27] @ ''Signatory Section (Simulated)'' @
                      [CHR 0x27] @ '', an issue was found: '' @ [CHR 0x27] @
                      ''Missing date on the signatory page.'' @ [CHR 0x27] @
                      '' (Severity: Medium).'')
                     (Some ''Intense Quote''),
                Para ''SUGGESTION: Ensure all signatory fields, including the date, are properly filled out.'' None,
                Para [] None]
               (blocks d)"
    by (elim conjE)
  from T have a: "resolve ?w ''reviewed_docs/reviewed_AoA_Acme.docx'' \<noteq>
         resolve ?w ''reviewed_docs/reviewed_Board_Resolution_Acme.docx'' \<longrightarrow>
           (\<exists>d. contents w' (resolve ?w ''reviewed_docs/reviewed_AoA_Acme.docx'') =
                   Some (Docx d) \<and>
                 suffix
                  [SectionBreak,
                Para ''--- AI Analysis & Comments ---'' (Some ''Heading 2''),
                Para (''COMMENT: In section '' @ [CHR 0x27] @ ''Jurisdiction Clause (Simulated)'' @
                      [CHR 0x27] @ '', an issue was found: '' @ [CHR 0x27] @
                      ''Jurisdiction clause does not explicitly specify '' @ [CHR 0x27] @
                      ''ADGM Courts'' @ [CHR 0x27] @ ''.'' @ [CHR 0x27] @ '' (Severity: High).'')
                     (Some ''Intense Quote''),
                Para (''SUGGESTION: Update the jurisdiction clause to '' @ [CHR 0x27] @
                      ''ADGM Courts'' @ [CHR 0x27] @ '' to comply with ADGM regulations.'') None,
                Para [] None]
                  (blocks d))"
    by (elim conjE)
  have miss: "missing_document report = ''Articles of Association (AoA)''"
    using t by simp
  have ps: "paths = [''reviewed_docs/reviewed_AoA_Acme.docx'',
              ''reviewed_docs/reviewed_Board_Resolution_Acme.docx'']"
    using t by simp
  have a': "\<exists>d. contents w' ''/app/reviewed_docs/reviewed_AoA_Acme.docx'' = Some (Docx d) \<and>
          suffix
            [SectionBreak,
                Para ''--- AI Analysis & Comments ---'' (Some ''Heading 2''),
                Para (''COMMENT: In section '' @ [CHR 0x27] @ ''Jurisdiction Clause (Simulated)'' @
                      [CHR 0x27] @ '', an issue was found: '' @ [CHR 0x27] @
                      ''Jurisdiction clause does not explicitly specify '' @ [CHR 0x27] @
                      ''ADGM Courts'' @ [CHR 0x27] @ ''.'' @ [CHR 0x27] @ '' (Severity: High).'')
                     (Some ''Intense Quote''),
                Para (''SUGGESTION: Update the jurisdiction clause to '' @ [CHR 0x27] @
                      ''ADGM Courts'' @ [CHR 0x27] @ '' to comply with ADGM regulations.'') None,
                Para [] None]
            (blocks d)"
    using a by simp
  have b': "\<exists>d. contents w' ''/app/reviewed_docs/reviewed_Board_Resolution_Acme.docx'' = Some (Docx d) \<and>
          suffix
            [SectionBreak,
                Para ''--- AI Analysis & Comments ---'' (Some ''Heading 2''),
                Para (''COMMENT: In section '' @ [CHR 0x27] @ ''Signatory Section (Simulated)'' @
                      [CHR 0x27] @ '', an issue was found: '' @ [CHR 0x27] @
                      ''Missing date on the signatory page.'' @ [CHR 0x27] @
                      '' (Severity: Medium).'')
                     (Some ''Intense Quote''),
                Para ''SUGGESTION: Ensure all signatory fields, including the date, are properly filled out.'' None,
                Para [] None]
            (blocks d)"
    using b by simp
  show ?thesis
    apply (rule exI [of _ summary], rule exI [of _ report], rule exI [of _ paths],
        rule exI [of _ w'])
    apply (intro conjI)
          apply (rule res)
         apply (rule two)
        apply (rule miss)
       apply (rule sev)
      apply (rule ps)
     apply (rule a')
    apply (rule b')
    done
qed

theorem scenario_two_files_counterexample:
  "fst (analyze_documents [\<lparr>name = ''AoA_Acme.docx''\<rparr>, \<lparr>name = ''Board_Resolution_Acme.docx''\<rparr>]
       \<lparr>resolve = (\<lambda>p. if prefix ''/'' p then p else ''/app/'' @ p),
        directories = {''/app''},
        contents = [''/app/AoA_Acme.docx'' \<mapsto>
                      Docx \<lparr>blocks = [Para ''Articles of Association of Acme'' None],
                            styles = {''Normal'', ''Heading 2'', ''Intense Quote''}\<rparr>,
                    ''/app/Board_Resolution_Acme.docx'' \<mapsto>
                      Docx \<lparr>blocks = [Para ''Resolved'' None],
                            styles = {''Normal'', ''Heading 2'', ''Intense Quote''}\<rparr>],
        unwritable = {}\<rparr>) =
     Inr (''It appears you'' @ [CHR 0x27] @
      ''re trying to incorporate a company in ADGM. You have uploaded 2 out of 7 required documents.'' @
      [CHR 0x0A, CHR 0x0A] @ ''The missing document appears to be: '' @ [CHR 0x27] @
      ''Articles of Association (AoA)'' @ [CHR 0x27] @ ''.'',
      \<lparr>process = ''Company Incorporation'',
       documents_uploaded = 2,
       required_documents = 7,
       missing_document = ''Articles of Association (AoA)'',
       issues_found =
         [\<lparr>section_name = ''Jurisdiction Clause (Simulated)'',
           issue = ''Jurisdiction clause does not explicitly specify '' @ [CHR 0x27] @
                   ''ADGM Courts'' @ [CHR 0x27] @ ''.'',
           severity = ''High'',
           suggestion = ''Update the jurisdiction clause to '' @ [CHR 0x27] @
                   ''ADGM Courts'' @ [CHR 0x27] @ '' to comply with ADGM regulations.'',
           document = ''AoA_Acme.docx''\<rparr>,
          \<lparr>section_name = ''Signatory Section (Simulated)'',
           issue = ''Missing date on the signatory page.'',
           severity = ''Medium'',
           suggestion = ''Ensure all signatory fields, including the date, are properly filled out.'',
           document = ''Board_Resolution_Acme.docx''\<rparr>]\<rparr>,
      [''reviewed_docs/reviewed_AoA_Acme.docx'',
       ''reviewed_docs/reviewed_Board_Resolution_Acme.docx'']) \<and>
   missing_document (fst (snd (projr (fst (analyze_documents [\<lparr>name = ''AoA_Acme.docx''\<rparr>, \<lparr>name = ''Board_Resolution_Acme.docx''\<rparr>]
       \<lparr>resolve = (\<lambda>p. if prefix ''/'' p then p else ''/app/'' @ p),
        directories = {''/app''},
        contents = [''/app/AoA_Acme.docx'' \<mapsto>
                      Docx \<lparr>blocks = [Para ''Articles of Association of Acme'' None],
                            styles = {''Normal'', ''Heading 2'', ''Intense Quote''}\<rparr>,
                    ''/app/Board_Resolution_Acme.docx'' \<mapsto>
                      Docx \<lparr>blocks = [Para ''Resolved'' None],
                            styles = {''Normal'', ''Heading 2'', ''Intense Quote''}\<rparr>],
        unwritable = {}\<rparr>))))) \<noteq>
     ''Memorandum of Association (MoA/MoU)'' \<and>
   analyze_documents [\<lparr>name = ''AoA_Acme.docx''\<rparr>, \<lparr>name = ''Board_Resolution_Acme.docx''\<rparr>]
       \<lparr>resolve = (\<lambda>p. if prefix ''/'' p then p else ''/app/'' @ p),
        directories = {''/app''},
        contents = [''/app/AoA_Acme.docx'' \<mapsto>
                      Docx \<lparr>blocks = [Para ''Articles of Association of Acme'' None],
                            styles = {''Normal''}\<rparr>,
                    ''/app/Board_Resolution_Acme.docx'' \<mapsto>
                      Docx \<lparr>blocks = [Para ''Resolved'' None],
                            styles = {''Normal'', ''Heading 2'', ''Intense Quote''}\<rparr>],
        unwritable = {}\<rparr> =
     (Inl (KeyError ''Heading 2''),
      \<lparr>resolve = (\<lambda>p. if prefix ''/'' p then p else ''/app/'' @ p),
        directories = {''/app/reviewed_docs'', ''/app''},
        contents = [''/app/AoA_Acme.docx'' \<mapsto>
                      Docx \<lparr>blocks = [Para ''Articles of Association of Acme'' None],
                            styles = {''Normal''}\<rparr>,
                    ''/app/Board_Resolution_Acme.docx'' \<mapsto>
                      Docx \<lparr>blocks = [Para ''Resolved'' None],
                            styles = {''Normal'', ''Heading 2'', ''Intense Quote''}\<rparr>],
        unwritable = {}\<rparr>)"
proof -
  let ?A = "\<lparr>name = ''AoA_Acme.docx''\<rparr>"
  let ?B = "\<lparr>name = ''Board_Resolution_Acme.docx''\<rparr>"
  let ?w = "\<lparr>resolve = (\<lambda>p. if prefix ''/'' p then p else ''/app/'' @ p),
        directories = {''/app''},
        contents = [''/app/AoA_Acme.docx'' \<mapsto>
                      Docx \<lparr>blocks = [Para ''Articles of Association of Acme'' None],
                            styles = {''Normal'', ''Heading 2'', ''Intense Quote''}\<rparr>,
                    ''/app/Board_Resolution_Acme.docx'' \<mapsto>
                      Docx \<lparr>blocks = [Para ''Resolved'' None],
                            styles = {''Normal'', ''Heading 2'', ''Intense Quote''}\<rparr>],
        unwritable = {}\<rparr>"
  have bA: "basename (name ?A) = ''AoA_Acme.docx''"
    and bB: "basename (name ?B) = ''Board_Resolution_Acme.docx''"
    by (simp_all add: basename_def)
  have "\<exists>t w'. analyze_documents [?A, ?B] ?w = (Inr t, w')"
    by (rule batch_returns)
      (simp_all add: basename_def path_exists_def open_document_def)
  then obtain t w' where res: "analyze_documents [?A, ?B] ?w = (Inr t, w')"
    by blast
  note t = scenario_triple [OF bA bB res]
  have one: "fst (analyze_documents [?A, ?B] ?w) =
     Inr (''It appears you'' @ [CHR 0x27] @
      ''re trying to incorporate a company in ADGM. You have uploaded 2 out of 7 required documents.'' @
      [CHR 0x0A, CHR 0x0A] @ ''The missing document appears to be: '' @ [CHR 0x27] @
      ''Articles of Association (AoA)'' @ [CHR 0x27] @ ''.'',
      \<lparr>process = ''Company Incorporation'',
       documents_uploaded = 2,
       required_documents = 7,
       missing_document = ''Articles of Association (AoA)'',
       issues_found =
         [\<lparr>section_name = ''Jurisdiction Clause (Simulated)'',
           issue = ''Jurisdiction clause does not explicitly specify '' @ [CHR 0x27] @
                   ''ADGM Courts'' @ [CHR 0x27] @ ''.'',
           severity = ''High'',
           suggestion = ''Update the jurisdiction clause to '' @ [CHR 0x27] @
                   ''ADGM Courts'' @ [CHR 0x27] @ '' to comply with ADGM regulations.'',
           document = ''AoA_Acme.docx''\<rparr>,
          \<lparr>section_name = ''Signatory Section (Simulated)'',
           issue = ''Missing date on the signatory page.'',
           severity = ''Medium'',
           suggestion = ''Ensure all signatory fields, including the date, are properly filled out.'',
           document = ''Board_Resolution_Acme.docx''\<rparr>]\<rparr>,
      [''reviewed_docs/reviewed_AoA_Acme.docx'',
       ''reviewed_docs/reviewed_Board_Resolution_Acme.docx''])"
    unfolding res fst_conv t ..
  have r: "process_file
      \<lparr>checklist = c, all_issues = i, reviewed_file_paths = ps,
       fs = \<lparr>resolve = (\<lambda>p. if prefix ''/'' p then p else ''/app/'' @ p),
        directories = {''/app/reviewed_docs'', ''/app''},
        contents = [''/app/AoA_Acme.docx'' \<mapsto>
                      Docx \<lparr>blocks = [Para ''Articles of Association of Acme'' None],
                            styles = {''Normal''}\<rparr>,
                    ''/app/Board_Resolution_Acme.docx'' \<mapsto>
                      Docx \<lparr>blocks = [Para ''Resolved'' None],
                            styles = {''Normal'', ''Heading 2'', ''Intense Quote''}\<rparr>],
        unwritable = {}\<rparr>\<rparr>
      \<lparr>name = ''AoA_Acme.docx''\<rparr> = Inl (KeyError ''Heading 2'')" for c i ps
    unfolding process_file_eq save_document_reviewed [OF basename_no_slash]
    by (simp only: bA) (simp add: open_document_def analysis_AoA_Acme)
  show ?thesis
    apply (intro conjI)
      apply (rule one)
     apply (simp add: one)
    apply (simp add: analyze_documents_def prepare_def path_exists_def makedirs_def
        output_dir_def r)
    done
qed

end
